theory Spec2Isabelle
  imports Complex_Main
begin

section \<open>JavaScript strings\<close>

text \<open>
  A JavaScript string is a sequence of UTF-16 code units. The glossary and the prompt
  templates hold text outside ASCII, and \<open>trim\<close> and the regular expression class
  \<open>\s\<close> know white space outside ASCII, so strings are lists of code units (natural
  numbers below 65536) and not lists of bytes. \<open>js\<close> embeds an ASCII literal.
\<close>

type_synonym jsstring = "nat list"

definition js :: "string \<Rightarrow> jsstring" where
  "js s = map of_char s"

text \<open>
  The white space of \<open>String.prototype.trim\<close> (WhiteSpace and LineTerminator of
  ECMAScript) and of the class \<open>\s\<close>: TAB, LF, VT, FF, CR, SPACE, NBSP, U+1680,
  U+2000 to U+200A, U+2028, U+2029, U+202F, U+205F, U+3000 and U+FEFF.
\<close>

definition isWhiteSpace :: "nat \<Rightarrow> bool" where
  "isWhiteSpace c \<longleftrightarrow>
     c \<in> set [9, 10, 11, 12, 13, 32, 160, 5760, 8232, 8233, 8239, 8287, 12288, 65279]
     \<or> (8192 \<le> c \<and> c \<le> 8202)"

text \<open>
  What \<open>String.prototype.toLowerCase\<close> does to a code unit of ASCII: \<open>A\<close> to \<open>Z\<close>
  become \<open>a\<close> to \<open>z\<close>, every other one stays.
\<close>

definition toLowerUnit :: "nat \<Rightarrow> nat" where
  "toLowerUnit c = (if 65 \<le> c \<and> c \<le> 90 then c + 32 else c)"

definition trim :: "jsstring \<Rightarrow> jsstring" where
  "trim s = rev (dropWhile isWhiteSpace (rev (dropWhile isWhiteSpace s)))"

text \<open>
  \<open>s.split(/\s+/)\<close>: every maximal run of white space is one separator. A string that
  starts (ends) with white space gets an empty first (last) piece, and the empty string
  splits into one empty piece.
\<close>

function split_ws :: "jsstring \<Rightarrow> jsstring list" where
  "split_ws s =
     (let word = takeWhile (\<lambda>c. \<not> isWhiteSpace c) s;
          rest = dropWhile (\<lambda>c. \<not> isWhiteSpace c) s
      in if rest = [] then [word] else word # split_ws (dropWhile isWhiteSpace rest))"
  by pat_completeness auto
termination
proof (relation "measure length", goal_cases)
  case 1
  show ?case by simp
next
  case (2 s word rest)
  have shorter: "length (dropWhile P xs) < length xs" if "xs \<noteq> []" "P (hd xs)"
    for P :: "nat \<Rightarrow> bool" and xs
    using that by (cases xs) (simp_all add: less_Suc_eq_le length_dropWhile_le)
  from 2 have "isWhiteSpace (hd rest)"
    using hd_dropWhile [of "\<lambda>c. \<not> isWhiteSpace c" s] by simp
  with 2 have "length (dropWhile isWhiteSpace rest) < length rest"
    by (intro shorter) simp_all
  moreover from 2 have "length rest \<le> length s"
    by (simp add: length_dropWhile_le)
  ultimately show ?case by simp
qed

declare split_ws.simps [simp del]

text \<open>\<open>Array.prototype.join\<close> on the strings of the elements.\<close>

fun join :: "jsstring \<Rightarrow> jsstring list \<Rightarrow> jsstring" where
  "join sep [] = []"
| "join sep [x] = x"
| "join sep (x # y # ys) = x @ sep @ join sep (y # ys)"


section \<open>JavaScript values and objects\<close>

text \<open>
  The values this program can meet. A number is the rational its literal denotes
  (\<open>0.9\<close> is \<open>Num (9/10)\<close>); NaN and the infinities cannot come out of JSON and are
  left out. \<open>Obj\<close> is an ordinary object by its own properties. \<open>Builtin\<close> is an object
  or a function of the engine, named by an expression that denotes it: the program reaches
  such values when it reads a property with a computed name and the name is one of
  \<open>Object.prototype\<close> (\<open>glossary["constructor"]\<close> is the function \<open>Object\<close>).
\<close>

datatype jsval =
    Undefined
  | Null
  | Bool bool
  | Num rat
  | Str jsstring
  | Obj "(jsstring \<times> jsval) list"
  | Arr "jsval list"
  | Builtin jsstring

fun truthy :: "jsval \<Rightarrow> bool" where
  "truthy Undefined = False"
| "truthy Null = False"
| "truthy (Bool b) = b"
| "truthy (Num n) = (n \<noteq> 0)"
| "truthy (Str s) = (s \<noteq> [])"
| "truthy (Obj _) = True"
| "truthy (Arr _) = True"
| "truthy (Builtin _) = True"

text \<open>\<open>a || b\<close>\<close>

definition js_or :: "jsval \<Rightarrow> jsval \<Rightarrow> jsval" where
  "js_or a b = (if truthy a then a else b)"

text \<open>
  The objects of this program (results, call arguments, parsed JSON, glossaries and their
  entries) are made by object literals and by \<open>JSON.parse\<close>, so their prototype is
  \<open>Object.prototype\<close>. A read \<open>o[k]\<close> gives the own property \<open>k\<close> of \<open>o\<close> and,
  when \<open>o\<close> has none, what \<open>Object.prototype\<close> has under \<open>k\<close>. Its property names
  are those of ECMAScript with Annex B, as in V8. Each is a function, but for
  \<open>__proto__\<close>, an accessor that gives the prototype of \<open>o\<close>, here
  \<open>Object.prototype\<close> itself. \<open>inherited k\<close> is the value read, \<open>undefined\<close> for any
  other name.
\<close>

definition Object_prototype_names :: "jsstring list" where
  "Object_prototype_names =
     [js ''constructor'', js ''__defineGetter__'', js ''__defineSetter__'',
      js ''hasOwnProperty'', js ''__lookupGetter__'', js ''__lookupSetter__'',
      js ''isPrototypeOf'', js ''propertyIsEnumerable'', js ''toString'', js ''valueOf'',
      js ''__proto__'', js ''toLocaleString'']"

definition inherited :: "jsstring \<Rightarrow> jsval" where
  "inherited k =
     (if k = js ''__proto__'' then Builtin (js ''Object.prototype'')
      else if k \<in> set Object_prototype_names then Builtin (js ''Object.prototype.'' @ k)
      else Undefined)"

type_synonym jsobject = "jsstring \<rightharpoonup> jsval"

text \<open>\<open>getProp ob k\<close> is the read \<open>ob[k]\<close> (\<open>ob.k\<close>) on an object given by its own properties.\<close>

definition getProp :: "jsobject \<Rightarrow> jsstring \<Rightarrow> jsval" where
  "getProp ob k = (case ob k of None \<Rightarrow> inherited k | Some v \<Rightarrow> v)"

text \<open>
  A parameter that is a string or \<open>null\<close> (\<open>sourceLang = null\<close>) is a
  \<open>jsstring option\<close>; \<open>orDefault p d\<close> is \<open>p || d\<close> for a string \<open>d\<close>.
\<close>

definition orDefault :: "jsstring option \<Rightarrow> jsstring \<Rightarrow> jsstring" where
  "orDefault p d = (case p of None \<Rightarrow> d | Some s \<Rightarrow> if s \<noteq> [] then s else d)"

text \<open>
  An \<open>Error\<close> instance (a TypeError thrown by the engine, an error thrown by a
  library), by its message. As a value it is the object of the one property that the
  program reads of it, \<open>thrownError\<close>.
\<close>

datatype js_error = Error jsstring

fun message :: "js_error \<Rightarrow> jsstring" where
  "message (Error m) = m"

definition thrownError :: "js_error \<Rightarrow> jsval" where
  "thrownError e = Obj [(js ''message'', Str (message e))]"


section \<open>The engine\<close>

text \<open>
  Three things the program gets from the JavaScript engine depend on the version of the
  engine and of Unicode, and are parameters of the model, held in one record.
  \<^item> \<open>unicodeLower s i\<close>: the code units that \<open>toLowerCase\<close> puts in the place of the
    code unit at index \<open>i\<close> of \<open>s\<close>, for a unit outside ASCII that is no white space.
    The case mappings of Unicode look at the context (the final sigma, a surrogate pair),
    so the function gets the whole string.
  \<^item> \<open>builtinGet b k\<close>: the read \<open>b[k]\<close> on the built-in object or function \<open>b\<close>;
    \<open>Inl\<close> when the read throws, as the accessors \<open>caller\<close> and \<open>arguments\<close> of
    \<open>Function.prototype\<close> do on a built-in function.
  \<^item> \<open>stringOf v\<close>: the string \<open>Array.prototype.join\<close> makes of an element \<open>v\<close>
    that is no string (a number, a built-in function by its source text).
\<close>

record engine =
  unicodeLower :: "jsstring \<Rightarrow> nat \<Rightarrow> jsstring"
  builtinGet :: "jsstring \<Rightarrow> jsstring \<Rightarrow> js_error + jsval"
  stringOf :: "jsval \<Rightarrow> jsstring"

text \<open>
  \<open>String.prototype.toLowerCase\<close>, code unit by code unit. A unit of ASCII is lowered by
  \<open>toLowerUnit\<close> whatever stands around it, white space has no case, and every other unit
  is the engine's.
\<close>

definition toLowerCase :: "engine \<Rightarrow> jsstring \<Rightarrow> jsstring" where
  "toLowerCase E s =
     concat (map (\<lambda>i. if s ! i < 128 then [toLowerUnit (s ! i)]
                       else if isWhiteSpace (s ! i) then [s ! i]
                       else unicodeLower E s i)
               [0..<length s])"

text \<open>
  \<open>Array.prototype.join\<close>: \<open>undefined\<close> and \<open>null\<close> give the empty string, a string
  gives itself, every other element the string the engine makes of it.
\<close>

definition elementString :: "engine \<Rightarrow> jsval \<Rightarrow> jsstring" where
  "elementString E v =
     (case v of Undefined \<Rightarrow> [] | Null \<Rightarrow> [] | Str s \<Rightarrow> s | _ \<Rightarrow> stringOf E v)"

definition joinValues :: "engine \<Rightarrow> jsstring \<Rightarrow> jsval list \<Rightarrow> jsstring" where
  "joinValues E sep vs = join sep (map (elementString E) vs)"


section \<open>utils/structuredOutput.js\<close>

definition DEFAULT_RESPONSE_STRUCTURE :: jsobject where
  "DEFAULT_RESPONSE_STRUCTURE = map_of
     [(js ''source_language'', Str []),
      (js ''target_language'', Str []),
      (js ''translated_text'', Str []),
      (js ''status'', Str (js ''success'')),
      (js ''timestamp'', Str []),
      (js ''confidence'', Num 1),
      (js ''cultural_notes'', Str []),
      (js ''error'', Null)]"

text \<open>
  \<open>formatStructuredOutput\<close> reads the clock (\<open>new Date().toISOString()\<close>); the string it
  gets is the parameter \<open>timestamp\<close>. The object literal spreads the defaults, then
  \<open>data\<close>, then sets the five properties that follow.
\<close>

definition formatStructuredOutput :: "jsstring \<Rightarrow> jsobject \<Rightarrow> jsobject" where
  "formatStructuredOutput timestamp data =
     (DEFAULT_RESPONSE_STRUCTURE ++ data)
       (js ''timestamp'' \<mapsto> Str timestamp,
        js ''source_language'' \<mapsto>
          js_or (getProp data (js ''source_language'')) (Str (js ''auto-detected'')),
        js ''target_language'' \<mapsto> js_or (getProp data (js ''target_language'')) (Str []),
        js ''translated_text'' \<mapsto> js_or (getProp data (js ''translated_text'')) (Str []),
        js ''status'' \<mapsto> js_or (getProp data (js ''status'')) (Str (js ''success'')))"

definition createSuccessResponse ::
  "jsstring \<Rightarrow> jsval \<Rightarrow> jsval \<Rightarrow> jsval \<Rightarrow> jsobject \<Rightarrow> jsobject" where
  "createSuccessResponse timestamp translatedText sourceLang targetLang additionalData =
     formatStructuredOutput timestamp
       (map_of
          [(js ''source_language'', sourceLang),
           (js ''target_language'', targetLang),
           (js ''translated_text'', translatedText),
           (js ''status'', Str (js ''success''))]
        ++ additionalData)"


section \<open>rag.js\<close>

text \<open>
  The glossary document: phrase to (language to translation), all strings. The built-in
  glossary is the object literal of the source, its translations as code units.
  (\<open>addToGlossary\<close>, which can write into that object, is not modelled.)
\<close>

type_synonym glossary = "jsstring \<rightharpoonup> (jsstring \<rightharpoonup> jsstring)"

definition DEFAULT_GLOSSARY :: glossary where
  "DEFAULT_GLOSSARY =
  map_of
   [(js ''hello'', map_of
      [(js ''Spanish'', js ''hola''),
       (js ''French'', js ''bonjour''),
       (js ''German'', js ''hallo''),
       (js ''Italian'', js ''ciao''),
       (js ''Portuguese'', js ''ol'' @ [225]),
       (js ''Russian'', [1087, 1088, 1080, 1074, 1077, 1090]),
       (js ''Japanese'', [12371, 12435, 12395, 12385, 12399]),
       (js ''Korean'', [50504, 45397, 54616, 49464, 50836]),
       (js ''Chinese'', [20320, 22909]),
       (js ''Arabic'', [1605, 1585, 1581, 1576, 1575])]),
    (js ''goodbye'', map_of
      [(js ''Spanish'', js ''adi'' @ [243] @ js ''s''),
       (js ''French'', js ''au revoir''),
       (js ''German'', js ''auf wiedersehen''),
       (js ''Italian'', js ''arrivederci''),
       (js ''Portuguese'', js ''adeus''),
       (js ''Russian'', [1076, 1086] @ js '' '' @ [1089, 1074, 1080, 1076, 1072, 1085, 1080, 1103]),
       (js ''Japanese'', [12373, 12424, 12358, 12394, 12425]),
       (js ''Korean'', [50504, 45397, 55176] @ js '' '' @ [44032, 49464, 50836]),
       (js ''Chinese'', [20877, 35265]),
       (js ''Arabic'', [1605, 1593] @ js '' '' @ [1575, 1604, 1587, 1604, 1575, 1605, 1577])]),
    (js ''thank you'', map_of
      [(js ''Spanish'', js ''gracias''),
       (js ''French'', js ''merci''),
       (js ''German'', js ''danke''),
       (js ''Italian'', js ''grazie''),
       (js ''Portuguese'', js ''obrigado''),
       (js ''Russian'', [1089, 1087, 1072, 1089, 1080, 1073, 1086]),
       (js ''Japanese'', [12354, 12426, 12364, 12392, 12358]),
       (js ''Korean'', [44048, 49324, 54633, 45768, 45796]),
       (js ''Chinese'', [35874, 35874]),
       (js ''Arabic'', [1588, 1603, 1585, 1575])]),
    (js ''yes'', map_of
      [(js ''Spanish'', js ''s'' @ [237]),
       (js ''French'', js ''oui''),
       (js ''German'', js ''ja''),
       (js ''Italian'', js ''s'' @ [236]),
       (js ''Portuguese'', js ''sim''),
       (js ''Russian'', [1076, 1072]),
       (js ''Japanese'', [12399, 12356]),
       (js ''Korean'', [45348]),
       (js ''Chinese'', [26159]),
       (js ''Arabic'', [1606, 1593, 1605])]),
    (js ''no'', map_of
      [(js ''Spanish'', js ''no''),
       (js ''French'', js ''non''),
       (js ''German'', js ''nein''),
       (js ''Italian'', js ''no''),
       (js ''Portuguese'', js ''n'' @ [227] @ js ''o''),
       (js ''Russian'', [1085, 1077, 1090]),
       (js ''Japanese'', [12356, 12356, 12360]),
       (js ''Korean'', [50500, 45768, 50836]),
       (js ''Chinese'', [19981]),
       (js ''Arabic'', [1604, 1575])])]"

text \<open>
  What \<open>data/glossary.json\<close> holds when \<open>loadGlossary\<close> reads it: nothing that can
  be read and parsed (\<open>readFile\<close> or \<open>JSON.parse\<close> throws), the JSON document
  \<open>null\<close>, or a glossary document. Other documents (numbers, strings, arrays, objects
  of another shape) are not modelled.
\<close>

datatype glossary_file = Unreadable | HoldsNull | Holds glossary

text \<open>
  \<open>loadGlossary\<close> catches the failure of the read and returns the built-in glossary;
  a document that parses is returned as it is, also \<open>null\<close> (here \<open>None\<close>).
\<close>

fun loadGlossary :: "glossary_file \<Rightarrow> glossary option" where
  "loadGlossary Unreadable = Some DEFAULT_GLOSSARY"
| "loadGlossary HoldsNull = None"
| "loadGlossary (Holds g) = Some g"

text \<open>
  \<open>stored g word targetLang\<close> is the translation the document itself holds for a phrase
  and a language, if it holds one: its own entry. It is what the specification calls
  the glossary entry of the phrase for the language; the program does not compute it,
  it reads properties, as follows.
\<close>

definition stored :: "glossary \<Rightarrow> jsstring \<Rightarrow> jsstring \<Rightarrow> jsstring option" where
  "stored g word targetLang = (case g word of None \<Rightarrow> None | Some entry \<Rightarrow> entry targetLang)"

text \<open>
  \<open>glossary[word]\<close>: the entry the document holds under \<open>word\<close>; without one, the
  member of \<open>Object.prototype\<close> of that name, if \<open>word\<close> names one; \<open>undefined\<close>
  otherwise.
\<close>

datatype glossary_value = Entry "jsstring \<rightharpoonup> jsstring" | Inherited jsstring | Missing

definition glossaryGet :: "glossary \<Rightarrow> jsstring \<Rightarrow> glossary_value" where
  "glossaryGet g word =
     (case g word of
        Some entry \<Rightarrow> Entry entry
      | None \<Rightarrow> (case inherited word of Builtin b \<Rightarrow> Inherited b | _ \<Rightarrow> Missing))"

text \<open>
  \<open>v[targetLang]\<close> for \<open>v = glossary[word]\<close>. On an entry it is the translation stored
  for the language, or what the entry inherits under that name. On a built-in value the
  read is the engine's. On \<open>undefined\<close> it throws a TypeError (the message is V8's).
\<close>

fun languageGet :: "engine \<Rightarrow> glossary_value \<Rightarrow> jsstring \<Rightarrow> js_error + jsval" where
  "languageGet E (Entry entry) targetLang =
     Inr (case entry targetLang of Some translation \<Rightarrow> Str translation
          | None \<Rightarrow> inherited targetLang)"
| "languageGet E (Inherited b) targetLang = builtinGet E b targetLang"
| "languageGet E Missing targetLang =
     Inl (Error (js ''Cannot read properties of undefined (reading '' @ [39] @ targetLang @ [39]
                 @ js '')''))"

text \<open>
  The test \<open>glossary[word] && glossary[word][targetLang]\<close>: \<open>undefined\<close> when
  \<open>glossary[word]\<close> is (an entry and a built-in value are truthy), the second read
  otherwise. \<open>found\<close> says that the test is passed: the value is read and is truthy. A
  translation that is the empty string does not pass.
\<close>

definition glossaryLookup ::
  "engine \<Rightarrow> glossary \<Rightarrow> jsstring \<Rightarrow> jsstring \<Rightarrow> js_error + jsval" where
  "glossaryLookup E g word targetLang =
     (case glossaryGet g word of
        Missing \<Rightarrow> Inr Undefined
      | v \<Rightarrow> languageGet E v targetLang)"

definition found :: "engine \<Rightarrow> glossary \<Rightarrow> jsstring \<Rightarrow> jsstring \<Rightarrow> bool" where
  "found E g word targetLang =
     (case glossaryLookup E g word targetLang of Inl error \<Rightarrow> False | Inr v \<Rightarrow> truthy v)"

text \<open>
  \<open>words.every(word => glossary[word] && glossary[word][targetLang])\<close> goes through the
  words from the left and stops at the first that fails the test, or at a read that
  throws.
\<close>

fun allWordsFound :: "engine \<Rightarrow> glossary \<Rightarrow> jsstring \<Rightarrow> jsstring list \<Rightarrow> js_error + bool" where
  "allWordsFound E g targetLang [] = Inr True"
| "allWordsFound E g targetLang (word # words) =
     (case glossaryLookup E g word targetLang of
        Inl error \<Rightarrow> Inl error
      | Inr v \<Rightarrow> if truthy v then allWordsFound E g targetLang words else Inr False)"

text \<open>\<open>words.map(word => glossary[word][targetLang])\<close>\<close>

fun wordTranslations ::
  "engine \<Rightarrow> glossary \<Rightarrow> jsstring \<Rightarrow> jsstring list \<Rightarrow> js_error + jsval list" where
  "wordTranslations E g targetLang [] = Inr []"
| "wordTranslations E g targetLang (word # words) =
     (case languageGet E (glossaryGet g word) targetLang of
        Inl error \<Rightarrow> Inl error
      | Inr v \<Rightarrow>
          (case wordTranslations E g targetLang words of
             Inl error \<Rightarrow> Inl error
           | Inr vs \<Rightarrow> Inr (v # vs)))"

text \<open>\<open>findPartialMatch\<close>: \<open>Inl\<close> is an exception thrown in it, \<open>Inr None\<close> the return of \<open>null\<close>.\<close>

definition findPartialMatch ::
  "engine \<Rightarrow> jsstring \<Rightarrow> jsstring \<Rightarrow> jsstring \<Rightarrow> glossary \<Rightarrow> js_error + jsobject option" where
  "findPartialMatch E timestamp text targetLang g =
     (let words = split_ws text
      in case allWordsFound E g targetLang words of
           Inl error \<Rightarrow> Inl error
         | Inr False \<Rightarrow> Inr None
         | Inr True \<Rightarrow>
             (case wordTranslations E g targetLang words of
                Inl error \<Rightarrow> Inl error
              | Inr vs \<Rightarrow>
                  (let translation = joinValues E (js '' '') vs
                   in Inr (Some (createSuccessResponse timestamp
                        (Str translation)
                        (Str (js ''auto-detected''))
                        (Str targetLang)
                        (map_of
                           [(js ''confidence'', Num (9 / 10)),
                            (js ''cultural_notes'',
                               Str (js ''Constructed from individual word translations'')),
                            (js ''source'', Str (js ''rag_partial''))]))))))"

text \<open>
  The body of the \<open>try\<close> of \<open>checkRAG\<close>: \<open>Inl\<close> is an exception thrown in it,
  \<open>Inr None\<close> the return of \<open>null\<close>. Reading a property of \<open>null\<close> throws a
  TypeError (the message is V8's). What the program prints is left out; the string it
  makes of the translation for the log has no effect on the result.
\<close>

definition checkRAG_try ::
  "engine \<Rightarrow> jsstring \<Rightarrow> glossary_file \<Rightarrow> jsstring \<Rightarrow> jsstring \<Rightarrow> jsstring option
   \<Rightarrow> js_error + jsobject option" where
  "checkRAG_try E timestamp file text targetLang sourceLang =
     (let loaded = loadGlossary file;
          normalizedText = trim (toLowerCase E text)
      in case loaded of
           None \<Rightarrow>
             Inl (Error (js ''Cannot read properties of null (reading '' @ [39]
                         @ normalizedText @ [39] @ js '')''))
         | Some g \<Rightarrow>
             (case glossaryLookup E g normalizedText targetLang of
                Inl error \<Rightarrow> Inl error
              | Inr v \<Rightarrow>
                  if truthy v
                  then
                    (case languageGet E (glossaryGet g normalizedText) targetLang of
                       Inl error \<Rightarrow> Inl error
                     | Inr translation \<Rightarrow>
                         Inr (Some (createSuccessResponse timestamp
                           translation
                           (Str (orDefault sourceLang (js ''auto-detected'')))
                           (Str targetLang)
                           (map_of
                              [(js ''confidence'', Num 1),
                               (js ''cultural_notes'', Str (js ''Retrieved from local glossary'')),
                               (js ''source'', Str (js ''rag''))]))))
                  else findPartialMatch E timestamp normalizedText targetLang g))"

text \<open>
  \<open>checkRAG\<close>: the \<open>catch\<close> logs the message of the error and returns \<open>null\<close>. The
  exceptions of the body are \<open>Error\<close> instances of the engine, so the read of the message
  does not throw.
\<close>

definition checkRAG ::
  "engine \<Rightarrow> jsstring \<Rightarrow> glossary_file \<Rightarrow> jsstring \<Rightarrow> jsstring \<Rightarrow> jsstring option
   \<Rightarrow> jsobject option" where
  "checkRAG E timestamp file text targetLang sourceLang =
     (case checkRAG_try E timestamp file text targetLang sourceLang of
        Inl error \<Rightarrow> None
      | Inr result \<Rightarrow> result)"


section \<open>prompts\<close>

text \<open>
  The four templates. \<open>sourceLangInstruction\<close> is the constant each of them computes
  first: \<open>sourceLang ? `The text is in ${sourceLang}.` : 'Please auto-detect ...'\<close>.
\<close>

definition sourceLangInstruction :: "jsstring option \<Rightarrow> jsstring" where
  "sourceLangInstruction sourceLang =
     (case sourceLang of
        None \<Rightarrow> js ''Please auto-detect the source language.''
      | Some s \<Rightarrow>
          if s \<noteq> [] then js ''The text is in '' @ s @ js ''.''
          else js ''Please auto-detect the source language.'')"

text \<open>\<open>prompts/zeroShot.js\<close>\<close>

definition getZeroShotPrompt :: "jsstring \<Rightarrow> jsstring \<Rightarrow> jsstring option \<Rightarrow> jsstring" where
  "getZeroShotPrompt text targetLang sourceLang =
     js ''You are a professional translator. ''
     @ sourceLangInstruction sourceLang
     @ js ''\<newline>\<newline>''
     @ js ''Please translate the following text to ''
     @ targetLang
     @ js '':\<newline>\<newline>''
     @ js ''\"''
     @ text
     @ js ''\"\<newline>\<newline>''
     @ js ''Provide only the translated text without any additional explanations or formatting.''"

text \<open>\<open>prompts/oneShot.js\<close>\<close>

definition getOneShotPrompt :: "jsstring \<Rightarrow> jsstring \<Rightarrow> jsstring option \<Rightarrow> jsstring" where
  "getOneShotPrompt text targetLang sourceLang =
     js ''You are a professional translator. ''
     @ sourceLangInstruction sourceLang
     @ js ''\<newline>\<newline>''
     @ js ''Here's an example of how to translate:\<newline>\<newline>''
     @ js ''Input: \"Good morning, how are you today?\"\<newline>''
     @ js ''Source: English\<newline>''
     @ js ''Target: Spanish\<newline>''
     @ js ''Output: \"Buenos d'' @ [237] @ js ''as, '' @ [191] @ js ''c'' @ [243] @ js ''mo est'' @ [225] @ js ''s hoy?\"\<newline>''
     @ js ''\<newline>''
     @ js ''Now please translate the following text to ''
     @ targetLang
     @ js '':\<newline>\<newline>''
     @ js ''\"''
     @ text
     @ js ''\"\<newline>\<newline>''
     @ js ''Provide only the translated text without any additional explanations or formatting.''"

text \<open>\<open>prompts/multiShot.js\<close>\<close>

definition getMultiShotPrompt :: "jsstring \<Rightarrow> jsstring \<Rightarrow> jsstring option \<Rightarrow> jsstring" where
  "getMultiShotPrompt text targetLang sourceLang =
     js ''You are a professional translator with expertise in ''
     @ targetLang
     @ js ''. ''
     @ sourceLangInstruction sourceLang
     @ js ''\<newline>\<newline>''
     @ js ''Here are several examples of high-quality translations:\<newline>\<newline>''
     @ js ''Example 1:\<newline>''
     @ js ''Input: \"It's raining cats and dogs\"\<newline>''
     @ js ''Source: English\<newline>''
     @ js ''Target: Spanish\<newline>''
     @ js ''Output: \"Est'' @ [225] @ js '' lloviendo a c'' @ [225] @ js ''ntaros\"\<newline>''
     @ js ''\<newline>''
     @ js ''Example 2:\<newline>''
     @ js ''Input: \"The early bird catches the worm\"\<newline>''
     @ js ''Source: English\<newline>''
     @ js ''Target: French\<newline>''
     @ js ''Output: \"L'oiseau matinal attrape le ver\"\<newline>\<newline>''
     @ js ''Example 3:\<newline>''
     @ js ''Input: \"Actions speak louder than words\"\<newline>''
     @ js ''Source: English\<newline>''
     @ js ''Target: German\<newline>''
     @ js ''Output: \"Taten sagen mehr als Worte\"\<newline>\<newline>''
     @ js ''Example 4:\<newline>''
     @ js ''Input: \"Don't judge a book by its cover\"\<newline>''
     @ js ''Source: English\<newline>''
     @ js ''Target: Italian\<newline>''
     @ js ''Output: \"Non giudicare un libro dalla copertina\"\<newline>\<newline>''
     @ js ''Now please translate the following text to ''
     @ targetLang
     @ js '', maintaining the same level of quality and cultural sensitivity:\<newline>\<newline>''
     @ js ''\"''
     @ text
     @ js ''\"\<newline>\<newline>''
     @ js ''Provide only the translated text without any additional explanations or formatting.''"



section \<open>prompts/dynamic.js\<close>

text \<open>
  The three tests of \<open>analyzeTextComplexity\<close>, named as its local constants are.
  \<open>wordCount\<close> is \<open>text.split(/\s+/).length\<close>.
\<close>

definition wordCount :: "jsstring \<Rightarrow> nat" where
  "wordCount text = length (split_ws text)"

text \<open>
  \<open>hasIdioms\<close> tests the text against an alternation of four literal phrases with the
  flag \<open>i\<close>. Without the flag \<open>u\<close> a character of the text matches an ASCII
  character of the pattern when both have the same upper case in ASCII; no character
  outside ASCII matches one inside (Canonicalize of ECMAScript).
\<close>

definition canonicalize :: "nat \<Rightarrow> nat" where
  "canonicalize c = (if 97 \<le> c \<and> c \<le> 122 then c - 32 else c)"

fun matchesAt :: "jsstring \<Rightarrow> jsstring \<Rightarrow> bool" where
  "matchesAt [] text = True"
| "matchesAt (p # ps) [] = False"
| "matchesAt (p # ps) (c # cs) = (canonicalize c = canonicalize p \<and> matchesAt ps cs)"

fun matchesSomewhere :: "jsstring \<Rightarrow> jsstring \<Rightarrow> bool" where
  "matchesSomewhere pattern [] = matchesAt pattern []"
| "matchesSomewhere pattern (c # cs) =
     (matchesAt pattern (c # cs) \<or> matchesSomewhere pattern cs)"

definition idiomPatterns :: "jsstring list" where
  "idiomPatterns =
     [js ''it'' @ [39] @ js ''s raining cats and dogs'',
      js ''early bird'',
      js ''actions speak'',
      js ''book by its cover'']"

definition hasIdioms :: "jsstring \<Rightarrow> bool" where
  "hasIdioms text = list_ex (\<lambda>pattern. matchesSomewhere pattern text) idiomPatterns"

text \<open>
  \<open>hasSpecialChars\<close>: some character outside the class
  \<open>[\w\s.,!?;:'"()]\<close>, where \<open>\w\<close> is \<open>[A-Za-z0-9_]\<close>.
\<close>

definition isWordChar :: "nat \<Rightarrow> bool" where
  "isWordChar c \<longleftrightarrow>
     (48 \<le> c \<and> c \<le> 57) \<or> (65 \<le> c \<and> c \<le> 90) \<or> c = 95 \<or> (97 \<le> c \<and> c \<le> 122)"

definition isPlainPunctuation :: "nat \<Rightarrow> bool" where
  "isPlainPunctuation c \<longleftrightarrow> c \<in> set (js ''.,!?;:'' @ [39, 34] @ js ''()'')"

definition hasSpecialChars :: "jsstring \<Rightarrow> bool" where
  "hasSpecialChars text =
     list_ex (\<lambda>c. \<not> (isWordChar c \<or> isWhiteSpace c \<or> isPlainPunctuation c)) text"

definition analyzeTextComplexity :: "jsstring \<Rightarrow> jsstring" where
  "analyzeTextComplexity text =
     (if wordCount text \<le> 5 \<and> \<not> hasIdioms text \<and> \<not> hasSpecialChars text
      then js ''simple''
      else if wordCount text \<le> 15 \<and> \<not> hasIdioms text
      then js ''moderate''
      else js ''complex'')"

definition getTranslationPrompt :: "jsstring \<Rightarrow> jsstring \<Rightarrow> jsstring option \<Rightarrow> jsstring" where
  "getTranslationPrompt text targetLang sourceLang =
     (let complexity = analyzeTextComplexity text
      in if complexity = js ''simple''
         then getZeroShotPrompt text targetLang sourceLang
         else if complexity = js ''moderate''
         then getOneShotPrompt text targetLang sourceLang
         else getMultiShotPrompt text targetLang sourceLang)"



section \<open>functions.js\<close>

text \<open>
  \<open>validateFunctionArgs\<close>: \<open>args\<close> is an object or \<open>null\<close>/\<open>undefined\<close>
  (\<open>None\<close>); a required field passes when its value is truthy and a string.
\<close>

fun isString :: "jsval \<Rightarrow> bool" where
  "isString (Str s) = True"
| "isString v = False"

definition validateFunctionArgs :: "jsobject option \<Rightarrow> bool" where
  "validateFunctionArgs args =
     (case args of
        None \<Rightarrow> False
      | Some a \<Rightarrow>
          list_all (\<lambda>field. truthy (getProp a field) \<and> isString (getProp a field))
            [js ''sourceLang'', js ''targetLang'', js ''translatedText''])"


section \<open>translator.js\<close>

text \<open>
  \<open>response.match(/\{[\s\S]*\}/)\<close>: the match starts at the first \<open>{\<close> and, the
  star being greedy, ends at the last \<open>}\<close> after it; there is none when no \<open>}\<close>
  follows the first \<open>{\<close>. (\<open>{\<close> is the code unit 123, \<open>}\<close> is 125.)
\<close>

definition jsonMatch :: "jsstring \<Rightarrow> jsstring option" where
  "jsonMatch response =
     (let fromBrace = dropWhile (\<lambda>c. c \<noteq> 123) response;
          matched = rev (dropWhile (\<lambda>c. c \<noteq> 125) (rev fromBrace))
      in if matched = [] then None else Some matched)"

text \<open>
  \<open>parseTextResponse\<close>. \<open>JSON.parse\<close> is the engine's and is taken as the parameter
  \<open>JSON_parse\<close>: \<open>None\<close> when it throws, the parsed object otherwise (a text that
  starts with \<open>{\<close> and parses is an object). The \<open>catch\<close> is reached by that
  exception only.
\<close>

definition parseTextResponse ::
  "jsstring \<Rightarrow> (jsstring \<Rightarrow> jsobject option) \<Rightarrow> jsstring \<Rightarrow> jsstring \<Rightarrow> jsstring option
   \<Rightarrow> jsobject" where
  "parseTextResponse timestamp JSON_parse response targetLang sourceLang =
     (case jsonMatch response of
        Some matched \<Rightarrow>
          (case JSON_parse matched of
             Some parsed \<Rightarrow> formatStructuredOutput timestamp parsed
           | None \<Rightarrow>
               formatStructuredOutput timestamp
                 (map_of
                    [(js ''source_language'', Str (orDefault sourceLang (js ''unknown''))),
                     (js ''target_language'', Str targetLang),
                     (js ''translated_text'', Str (trim response)),
                     (js ''status'', Str (js ''partial_success'')),
                     (js ''error'', Str (js ''Failed to parse structured response''))]))
      | None \<Rightarrow>
          formatStructuredOutput timestamp
            (map_of
               [(js ''source_language'', Str (orDefault sourceLang (js ''auto-detected''))),
                (js ''target_language'', Str targetLang),
                (js ''translated_text'', Str (trim response)),
                (js ''status'', Str (js ''success''))]))"

text \<open>
  What \<open>generateContent\<close> resolves to, as far as \<open>translate\<close> reads it: the token
  counts of \<open>usageMetadata\<close> (absent: \<open>None\<close>), the parts of each candidate's
  content, each part with or without a \<open>functionCall\<close> (which has \<open>args\<close> or not),
  and what \<open>response.text()\<close> does (\<open>Inl v\<close>: it throws the value \<open>v\<close>). The
  response and its method come from outside the program, and JavaScript lets a function
  throw any value, not only an \<open>Error\<close>.
\<close>

record usage =
  promptTokenCount :: jsval
  candidatesTokenCount :: jsval
  totalTokenCount :: jsval

datatype function_call = FunctionCall (fc_name: jsstring) (fc_args: "jsobject option")

datatype part = Part (functionCall: "function_call option")

record response =
  usageMetadata :: "usage option"
  candidates :: "part list list"
  text_result :: "jsval + jsstring"

text \<open>
  \<open>logTokens\<close> (utils/tokenLogger.js) prints a report and returns nothing; \<open>Some\<close> is
  the exception it throws. Without usage data it returns at once. A count that is
  \<open>undefined\<close> gets the default 0; the report calls \<open>toLocaleString\<close> on each
  count, which throws a TypeError on \<open>null\<close> (the message is V8's) and on no other
  value; the arithmetic of the report never throws.
\<close>

definition logTokens :: "usage option \<Rightarrow> js_error option" where
  "logTokens metadata =
     (case metadata of
        None \<Rightarrow> None
      | Some u \<Rightarrow>
          if promptTokenCount u = Null \<or> candidatesTokenCount u = Null
             \<or> totalTokenCount u = Null
          then Some (Error (js ''Cannot read properties of null (reading ''
                            @ [39] @ js ''toLocaleString'' @ [39] @ js '')''))
          else None)"

text \<open>
  \<open>firstPart\<close> is \<open>response.candidates[0].content.parts[0]\<close>: with no candidate or
  no part the property read of \<open>undefined\<close> throws a TypeError (the messages are
  V8's).
\<close>

definition firstPart :: "response \<Rightarrow> js_error + part" where
  "firstPart r =
     (case candidates r of
        [] \<Rightarrow> Inl (Error (js ''Cannot read properties of undefined (reading ''
                          @ [39] @ js ''content'' @ [39] @ js '')''))
      | parts # _ \<Rightarrow>
          (case parts of
             [] \<Rightarrow> Inl (Error (js ''Cannot read properties of undefined (reading ''
                               @ [39] @ js ''functionCall'' @ [39] @ js '')''))
           | p # _ \<Rightarrow> Inr p))"

text \<open>
  The body of the \<open>try\<close> of \<open>translate\<close>; \<open>Inl v\<close> says that the value \<open>v\<close> is
  thrown in it. \<open>generateContent\<close> is the model boundary, a function of the prompt:
  \<open>Inl v\<close> when the call throws (its promise is rejected with) \<open>v\<close>, any value.
\<close>

definition translate_try ::
  "engine \<Rightarrow> jsstring \<Rightarrow> glossary_file \<Rightarrow> (jsstring \<Rightarrow> jsobject option)
   \<Rightarrow> (jsstring \<Rightarrow> jsval + response)
   \<Rightarrow> jsstring \<Rightarrow> jsstring \<Rightarrow> jsstring option \<Rightarrow> jsval + jsobject" where
  "translate_try E timestamp file JSON_parse generateContent text targetLang sourceLang =
     (case checkRAG E timestamp file text targetLang sourceLang of
        Some ragResult \<Rightarrow> Inr ragResult
      | None \<Rightarrow>
          (let prompt = getTranslationPrompt text targetLang sourceLang
           in case generateContent prompt of
                Inl thrown \<Rightarrow> Inl thrown
              | Inr response \<Rightarrow>
                  (case logTokens (usageMetadata response) of
                     Some error \<Rightarrow> Inl (thrownError error)
                   | None \<Rightarrow>
                       (case firstPart response of
                          Inl error \<Rightarrow> Inl (thrownError error)
                        | Inr p \<Rightarrow>
                            (case functionCall p of
                               Some (FunctionCall name (Some args)) \<Rightarrow>
                                 Inr (formatStructuredOutput timestamp
                                   (map_of
                                      [(js ''source_language'',
                                          js_or (getProp args (js ''sourceLang''))
                                            (Str (js ''auto-detected''))),
                                       (js ''target_language'',
                                          getProp args (js ''targetLang'')),
                                       (js ''translated_text'',
                                          getProp args (js ''translatedText'')),
                                       (js ''status'', Str (js ''success''))]))
                             | _ \<Rightarrow>
                                 (case text_result response of
                                    Inl thrown \<Rightarrow> Inl thrown
                                  | Inr textResponse \<Rightarrow>
                                      Inr (parseTextResponse timestamp JSON_parse
                                             textResponse targetLang sourceLang)))))))"

text \<open>
  \<open>error.message\<close> in the \<open>catch\<close> of \<open>translate\<close>, on the value caught. On
  \<open>undefined\<close> and on \<open>null\<close> the read throws a TypeError (the messages are V8's). An
  object gives its property or what it inherits under that name, a built-in value what
  the engine says. A boolean, a number, a string and an array have no such property:
  the read gives \<open>undefined\<close>.
\<close>

fun errorMessage :: "engine \<Rightarrow> jsval \<Rightarrow> js_error + jsval" where
  "errorMessage E Undefined =
     Inl (Error (js ''Cannot read properties of undefined (reading '' @ [39] @ js ''message''
                 @ [39] @ js '')''))"
| "errorMessage E Null =
     Inl (Error (js ''Cannot read properties of null (reading '' @ [39] @ js ''message''
                 @ [39] @ js '')''))"
| "errorMessage E (Obj properties) = Inr (getProp (map_of properties) (js ''message''))"
| "errorMessage E (Builtin b) = builtinGet E b (js ''message'')"
| "errorMessage E v = Inr Undefined"

text \<open>
  \<open>translate\<close>: the \<open>catch\<close> reads the message of the value caught, first for the log,
  and turns it into an error result. When that read throws, nothing catches the
  TypeError: \<open>translate\<close> raises it to its caller (\<open>Inl\<close>; the promise it returned is
  rejected).
\<close>

definition translate ::
  "engine \<Rightarrow> jsstring \<Rightarrow> glossary_file \<Rightarrow> (jsstring \<Rightarrow> jsobject option)
   \<Rightarrow> (jsstring \<Rightarrow> jsval + response)
   \<Rightarrow> jsstring \<Rightarrow> jsstring \<Rightarrow> jsstring option \<Rightarrow> js_error + jsobject" where
  "translate E timestamp file JSON_parse generateContent text targetLang sourceLang =
     (case translate_try E timestamp file JSON_parse generateContent text targetLang sourceLang of
        Inr result \<Rightarrow> Inr result
      | Inl error \<Rightarrow>
          (case errorMessage E error of
             Inl typeError \<Rightarrow> Inl typeError
           | Inr messageRead \<Rightarrow>
               Inr (formatStructuredOutput timestamp
                 (map_of
                    [(js ''source_language'', Str (orDefault sourceLang (js ''unknown''))),
                     (js ''target_language'', Str targetLang),
                     (js ''translated_text'', Str []),
                     (js ''status'', Str (js ''error'')),
                     (js ''error'', messageRead)]))))"


section \<open>The notions of the specification\<close>

text \<open>
  The specification speaks of the words of a text and of its whitespace-split tokens.
  Taken by themselves these are the maximal runs of code units that are no white space;
  \<open>spec_words\<close> collects them going through the text from the left. They are not
  computed by the program, which splits the text (\<open>split_ws\<close>); the theorems compare
  the two.
\<close>

fun spec_words :: "jsstring \<Rightarrow> jsstring list" where
  "spec_words [] = []"
| "spec_words (c # cs) =
     (if isWhiteSpace c then spec_words cs
      else if cs = [] \<or> isWhiteSpace (hd cs) then [c] # spec_words cs
      else (case spec_words cs of [] \<Rightarrow> [[c]] | w # ws \<Rightarrow> (c # w) # ws))"

text \<open>
  A text holds a phrase, the case of the ASCII letters set aside, when a stretch of it
  agrees with the phrase unit by unit, up to that case.
\<close>

definition spec_same_letter :: "nat \<Rightarrow> nat \<Rightarrow> bool" where
  "spec_same_letter c p \<longleftrightarrow>
     c = p \<or> (65 \<le> c \<and> c \<le> 90 \<and> p = c + 32) \<or> (65 \<le> p \<and> p \<le> 90 \<and> c = p + 32)"

definition spec_holds_phrase :: "jsstring \<Rightarrow> jsstring \<Rightarrow> bool" where
  "spec_holds_phrase text phrase \<longleftrightarrow>
     (\<exists>before stretch after. text = before @ stretch @ after
        \<and> list_all2 spec_same_letter stretch phrase)"


section \<open>An engine for the examples\<close>

text \<open>
  The examples below are evaluated with this engine. It has what they read of a real
  one: the function \<open>Object\<close>, which every object inherits as \<open>constructor\<close>, has the
  name \<open>Object\<close> and the length 1 (ECMAScript fixes both). Its other answers are
  placeholders that no example consults: the examples lower no cased letter outside
  ASCII, read no other property of a built-in value and join strings only.
\<close>

definition exampleEngine :: engine where
  "exampleEngine =
     \<lparr>unicodeLower = (\<lambda>s i. [s ! i]),
      builtinGet =
        (\<lambda>b k. if b = js ''Object.prototype.constructor'' \<and> k = js ''name''
               then Inr (Str (js ''Object''))
               else if b = js ''Object.prototype.constructor'' \<and> k = js ''length''
               then Inr (Num 1)
               else Inr Undefined),
      stringOf = (\<lambda>v. [])\<rparr>"


section \<open>Lemmas on strings\<close>

lemma js_eq_iff [simp]: "js a = js b \<longleftrightarrow> a = b"
  unfolding js_def by (simp add: inj_map_eq_map inj_on_def)

lemma js_Nil [simp]: "js [] = []"
  by (simp add: js_def)

lemma js_eq_Nil [simp]: "js a = [] \<longleftrightarrow> a = []" "[] = js a \<longleftrightarrow> a = []"
  by (auto simp: js_def)

lemma js_append: "js (a @ b) = js a @ js b"
  by (simp add: js_def)

lemma length_js [simp]: "length (js s) = length s"
  by (simp add: js_def)

text \<open>
  On a text of ASCII and white space \<open>toLowerCase\<close> is the map of \<open>toLowerUnit\<close>,
  whatever the engine.
\<close>

lemma toLowerCase_plain:
  assumes "list_all (\<lambda>c. c < 128 \<or> isWhiteSpace c) s"
  shows "toLowerCase E s = map toLowerUnit s"
proof -
  have unit: "(if s ! i < 128 then [toLowerUnit (s ! i)]
               else if isWhiteSpace (s ! i) then [s ! i] else unicodeLower E s i)
              = [toLowerUnit (s ! i)]" if "i < length s" for i
  proof -
    from assms that have "s ! i < 128 \<or> isWhiteSpace (s ! i)"
      by (simp add: list_all_length)
    then show ?thesis
      by (auto simp: toLowerUnit_def)
  qed
  have "toLowerCase E s = concat (map (\<lambda>i. [toLowerUnit (s ! i)]) [0..<length s])"
    unfolding toLowerCase_def by (intro arg_cong [where f = concat] map_cong refl) (simp add: unit)
  also have "\<dots> = map (\<lambda>i. toLowerUnit (s ! i)) [0..<length s]"
    by (induction "[0..<length s]" rule: rev_induct) (simp_all add: concat_map_singleton)
  also have "\<dots> = map toLowerUnit (map ((!) s) [0..<length s])"
    by simp
  also have "\<dots> = map toLowerUnit s"
    by (simp only: map_nth)
  finally show ?thesis .
qed

text \<open>The equations that evaluate the string functions on a literal.\<close>

lemmas str_eval =
  js_def isWhiteSpace_def toLowerUnit_def toLowerCase_plain trim_def split_ws.simps Let_def

lemma isWhiteSpace_toLowerUnit [simp]: "isWhiteSpace (toLowerUnit c) = isWhiteSpace c"
  by (auto simp: isWhiteSpace_def toLowerUnit_def)

lemma toLowerUnit_whitespace: "isWhiteSpace c \<Longrightarrow> toLowerUnit c = c"
  by (auto simp: isWhiteSpace_def toLowerUnit_def)

lemma toLowerCase_whitespace:
  assumes "list_all isWhiteSpace ws"
  shows "toLowerCase E ws = ws"
proof -
  from assms have "list_all (\<lambda>c. c < 128 \<or> isWhiteSpace c) ws"
    by (simp add: list_all_iff)
  then have "toLowerCase E ws = map toLowerUnit ws"
    by (rule toLowerCase_plain)
  also from assms have "\<dots> = ws"
    by (induction ws) (simp_all add: toLowerUnit_whitespace)
  finally show ?thesis .
qed

lemma dropWhile_all: "list_all P xs \<Longrightarrow> dropWhile P (xs @ ys) = dropWhile P ys"
  by (induction xs) auto

text \<open>\<open>trim\<close> removes the white space around a text that does not start or end with any.\<close>

lemma trim_surrounded:
  assumes "list_all isWhiteSpace ws1" "list_all isWhiteSpace ws2"
    and "p = [] \<or> (\<not> isWhiteSpace (hd p) \<and> \<not> isWhiteSpace (last p))"
  shows "trim (ws1 @ p @ ws2) = p"
proof (cases "p = []")
  case True
  with assms(1,2) have "dropWhile isWhiteSpace (ws1 @ p @ ws2) = []"
    unfolding dropWhile_eq_Nil_conv by (auto simp: list_all_iff)
  then show ?thesis unfolding trim_def using True by (simp only: rev.simps dropWhile.simps)
next
  case False
  with assms(3) have h: "\<not> isWhiteSpace (hd p)" and l: "\<not> isWhiteSpace (last p)" by auto
  from False h have 1: "dropWhile isWhiteSpace (ws1 @ p @ ws2) = p @ ws2"
    using assms(1) by (cases p) (simp_all add: dropWhile_all)
  from False l have "dropWhile isWhiteSpace (rev ws2 @ rev p) = rev p"
    using assms(2) by (cases p rule: rev_cases) (simp_all add: dropWhile_all list_all_iff)
  with 1 show ?thesis by (simp add: trim_def)
qed

lemma trim_whitespace_only:
  "list_all isWhiteSpace text \<Longrightarrow> trim (toLowerCase E text) = []"
  using trim_surrounded [of "text" "[]" "[]"] by (simp add: toLowerCase_whitespace)

text \<open>What \<open>trim\<close> returns neither starts nor ends with white space.\<close>

lemma trim_ends:
  assumes "trim s \<noteq> []"
  shows "\<not> isWhiteSpace (hd (trim s))" and "\<not> isWhiteSpace (last (trim s))"
proof -
  let ?x = "dropWhile isWhiteSpace s"
  let ?y = "dropWhile isWhiteSpace (rev ?x)"
  from assms have y: "?y \<noteq> []"
    by (simp add: trim_def)
  then have "\<not> isWhiteSpace (hd ?y)"
    by (rule hd_dropWhile)
  with y show "\<not> isWhiteSpace (last (trim s))"
    by (simp add: trim_def last_rev)
  from y have x: "?x \<noteq> []"
    by (auto dest: set_dropWhileD)
  then have hx: "\<not> isWhiteSpace (hd ?x)"
    by (rule hd_dropWhile)
  have "rev ?x = takeWhile isWhiteSpace (rev ?x) @ ?y"
    by simp
  then have "?x = rev ?y @ rev (takeWhile isWhiteSpace (rev ?x))"
    by (metis rev_append rev_rev_ident)
  with y have "hd ?x = hd (rev ?y)"
    by (metis hd_append2 rev_is_Nil_conv)
  with hx show "\<not> isWhiteSpace (hd (trim s))"
    by (simp add: trim_def)
qed

lemma split_ws_Nil: "split_ws [] = [[]]"
  by (simp add: split_ws.simps)

text \<open>
  A text in which each letter of \<open>P\<close> stands as it is or as its capital, with white
  space around it, is lowered to \<open>P\<close> with that white space around it, when \<open>P\<close> is
  ASCII and has no capital itself.
\<close>

lemma map_toLowerUnit_any_casing:
  assumes "list_all2 (\<lambda>c p. c = p \<or> (65 \<le> c \<and> c \<le> 90 \<and> c + 32 = p)) v P"
    and "\<forall>p \<in> set P. \<not> (65 \<le> p \<and> p \<le> 90)"
  shows "map toLowerUnit v = P"
  using assms
  by (induction v P rule: list_all2_induct) (auto simp: toLowerUnit_def)

lemma toLowerCase_any_casing:
  assumes "list_all2 (\<lambda>c p. c = p \<or> (65 \<le> c \<and> c \<le> 90 \<and> c + 32 = p)) v P"
    and "\<forall>p \<in> set P. \<not> (65 \<le> p \<and> p \<le> 90)"
    and "\<forall>p \<in> set P. p < 128"
    and "list_all isWhiteSpace ws1" and "list_all isWhiteSpace ws2"
  shows "toLowerCase E (ws1 @ v @ ws2) = ws1 @ P @ ws2"
proof -
  from assms(1,3) have "\<forall>c \<in> set v. c < 128"
    by (induction v P rule: list_all2_induct) auto
  with assms(4,5) have "list_all (\<lambda>c. c < 128 \<or> isWhiteSpace c) (ws1 @ v @ ws2)"
    by (auto simp: list_all_iff)
  then have "toLowerCase E (ws1 @ v @ ws2) = map toLowerUnit (ws1 @ v @ ws2)"
    by (rule toLowerCase_plain)
  also have "\<dots> = map toLowerUnit ws1 @ map toLowerUnit v @ map toLowerUnit ws2"
    by simp
  also have "map toLowerUnit v = P"
    using assms(1,2) by (rule map_toLowerUnit_any_casing)
  also have "map toLowerUnit ws1 = ws1"
    using assms(4) by (induction ws1) (simp_all add: toLowerUnit_whitespace)
  also have "map toLowerUnit ws2 = ws2"
    using assms(5) by (induction ws2) (simp_all add: toLowerUnit_whitespace)
  finally show ?thesis .
qed

lemma prefixes_differ: "length a = length b \<Longrightarrow> a \<noteq> b \<Longrightarrow> a @ x \<noteq> b @ y"
  by simp



section \<open>Lemmas on the result object\<close>

lemma js_or_Str_Nil [simp]: "js_or (Str s) (Str []) = Str s"
  by (simp add: js_or_def)

lemma js_or_truthy [simp]: "truthy a \<Longrightarrow> js_or a b = a"
  by (simp add: js_or_def)

lemma orDefault_nonempty [simp]: "d \<noteq> [] \<Longrightarrow> orDefault p d \<noteq> []"
  by (simp add: orDefault_def split: option.splits)

lemma orDefault_simps [simp]:
  "orDefault None d = d" "s \<noteq> [] \<Longrightarrow> orDefault (Some s) d = s" "orDefault (Some []) d = d"
  by (simp_all add: orDefault_def)

text \<open>
  The names the program reads with a constant key are no names of \<open>Object.prototype\<close>:
  an object that has no such property of its own gives \<open>undefined\<close>.
\<close>

lemma inherited_constant_keys [simp]:
  "inherited (js ''source_language'') = Undefined"
  "inherited (js ''target_language'') = Undefined"
  "inherited (js ''translated_text'') = Undefined"
  "inherited (js ''status'') = Undefined"
  "inherited (js ''sourceLang'') = Undefined"
  "inherited (js ''targetLang'') = Undefined"
  "inherited (js ''translatedText'') = Undefined"
  "inherited (js ''message'') = Undefined"
  by (simp_all add: inherited_def Object_prototype_names_def)

lemma inherited_cases: "inherited k = Undefined \<or> (\<exists>b. inherited k = Builtin b)"
  by (simp add: inherited_def)

lemma inherited_other: "k \<notin> set Object_prototype_names \<Longrightarrow> inherited k = Undefined"
  by (auto simp: inherited_def Object_prototype_names_def)

lemma inherited_name:
  "k \<in> set Object_prototype_names \<Longrightarrow> \<exists>b. inherited k = Builtin b"
  by (simp add: inherited_def)

lemma inherited_Nil [simp]: "inherited [] = Undefined"
  by (simp add: inherited_def Object_prototype_names_def)

lemmas fso_defs =
  formatStructuredOutput_def getProp_def js_or_def map_add_def DEFAULT_RESPONSE_STRUCTURE_def

text \<open>The fields of a formatted object, one by one.\<close>

lemma fso_timestamp:
  "formatStructuredOutput t d (js ''timestamp'') = Some (Str t)"
  by (simp add: fso_defs)

lemma fso_source_language:
  "formatStructuredOutput t d (js ''source_language'')
   = Some (js_or (getProp d (js ''source_language'')) (Str (js ''auto-detected'')))"
  by (simp add: formatStructuredOutput_def)

lemma fso_target_language:
  "formatStructuredOutput t d (js ''target_language'')
   = Some (js_or (getProp d (js ''target_language'')) (Str []))"
  by (simp add: formatStructuredOutput_def)

lemma fso_translated_text:
  "formatStructuredOutput t d (js ''translated_text'')
   = Some (js_or (getProp d (js ''translated_text'')) (Str []))"
  by (simp add: formatStructuredOutput_def)

lemma fso_status:
  "formatStructuredOutput t d (js ''status'')
   = Some (js_or (getProp d (js ''status'')) (Str (js ''success'')))"
  by (simp add: formatStructuredOutput_def)

lemma fso_confidence:
  "formatStructuredOutput t d (js ''confidence'')
   = Some (case d (js ''confidence'') of None \<Rightarrow> Num 1 | Some v \<Rightarrow> v)"
  by (simp add: fso_defs split: option.splits)

lemma fso_cultural_notes:
  "formatStructuredOutput t d (js ''cultural_notes'')
   = Some (case d (js ''cultural_notes'') of None \<Rightarrow> Str [] | Some v \<Rightarrow> v)"
  by (simp add: fso_defs split: option.splits)

lemma fso_error:
  "formatStructuredOutput t d (js ''error'')
   = Some (case d (js ''error'') of None \<Rightarrow> Null | Some v \<Rightarrow> v)"
  by (simp add: fso_defs split: option.splits)

lemmas fso_fields =
  fso_timestamp fso_source_language fso_target_language fso_translated_text fso_status
  fso_confidence fso_cultural_notes fso_error

lemma fso_required_fields:
  "{js ''source_language'', js ''target_language'', js ''translated_text'', js ''status'',
    js ''timestamp'', js ''confidence'', js ''cultural_notes'', js ''error''}
   \<subseteq> dom (formatStructuredOutput t d)"
  by (auto simp: fso_defs split: if_splits option.splits)

text \<open>The object \<open>createSuccessResponse\<close> builds for the two glossary paths.\<close>

lemma csr_fields:
  assumes "additionalData (js ''source_language'') = None"
      "additionalData (js ''target_language'') = None"
      "additionalData (js ''translated_text'') = None"
      "additionalData (js ''status'') = None"
      "additionalData (js ''error'') = None"
      "s \<noteq> []"
      "r = createSuccessResponse t v (Str s) (Str L) additionalData"
  shows "r (js ''status'') = Some (Str (js ''success''))"
    and "r (js ''translated_text'') = Some (js_or v (Str []))"
    and "r (js ''source_language'') = Some (Str s)"
    and "r (js ''target_language'') = Some (Str L)"
    and "r (js ''timestamp'') = Some (Str t)"
    and "r (js ''error'') = Some Null"
    and "r (js ''confidence'')
         = Some (case additionalData (js ''confidence'') of None \<Rightarrow> Num 1 | Some v \<Rightarrow> v)"
  using assms(1-6) unfolding assms(7) createSuccessResponse_def
  by (simp_all add: fso_fields getProp_def map_add_def split: option.splits)


section \<open>The output normalizer\<close>

text \<open>
  Claim C8. Normalization is idempotent: \<open>formatStructuredOutput\<close> applied to an object
  it has produced gives that object again in every field (the fields of the input beyond
  the required ones included), except that the timestamp is the one of the second call.
\<close>

theorem normalize_idempotent:
  "formatStructuredOutput t2 (formatStructuredOutput t1 x)
   = (formatStructuredOutput t1 x)(js ''timestamp'' \<mapsto> Str t2)"
proof
  fix k
  let ?once = "formatStructuredOutput t1 x"
  consider "k = js ''timestamp''" | "k = js ''source_language''" | "k = js ''target_language''"
    | "k = js ''translated_text''" | "k = js ''status''"
    | "k \<notin> {js ''timestamp'', js ''source_language'', js ''target_language'',
         js ''translated_text'', js ''status''}"
    by blast
  then show "formatStructuredOutput t2 ?once k = (?once(js ''timestamp'' \<mapsto> Str t2)) k"
  proof cases
    case 1
    then show ?thesis by (simp add: fso_timestamp)
  next
    case 2
    then show ?thesis
      by (simp add: fso_source_language getProp_def js_or_def)
  next
    case 3
    then show ?thesis
      by (simp add: fso_target_language getProp_def js_or_def)
  next
    case 4
    then show ?thesis
      by (simp add: fso_translated_text getProp_def js_or_def)
  next
    case 5
    then show ?thesis
      by (simp add: fso_status getProp_def js_or_def)
  next
    case 6
    then have "formatStructuredOutput t2 ?once k = (DEFAULT_RESPONSE_STRUCTURE ++ ?once) k"
      by (simp add: formatStructuredOutput_def)
    also have "\<dots> = ?once k"
      using fso_required_fields [of t1 x]
      by (cases "?once k") (auto simp: map_add_def DEFAULT_RESPONSE_STRUCTURE_def split: if_splits)
    finally show ?thesis using 6 by simp
  qed
qed

theorem normalize_idempotent_witness:
  "formatStructuredOutput (js ''2024-01-01T12:00:01.000Z'')
     (formatStructuredOutput (js ''2024-01-01T12:00:00.000Z'')
        (map_of [(js ''source_language'', Str (js ''English'')),
                 (js ''target_language'', Str (js ''Spanish'')),
                 (js ''translated_text'', Str (js ''Hola mundo'')),
                 (js ''source'', Str (js ''rag''))]))
   = map_of
       [(js ''source_language'', Str (js ''English'')),
        (js ''target_language'', Str (js ''Spanish'')),
        (js ''translated_text'', Str (js ''Hola mundo'')),
        (js ''status'', Str (js ''success'')),
        (js ''timestamp'', Str (js ''2024-01-01T12:00:01.000Z'')),
        (js ''confidence'', Num 1),
        (js ''cultural_notes'', Str []),
        (js ''error'', Null),
        (js ''source'', Str (js ''rag''))]"
  unfolding normalize_idempotent
  by (rule ext) (simp add: fso_defs)

section \<open>What the models of the regular expressions match\<close>

text \<open>
  The pieces of \<open>split(/\s+/)\<close> hold no white space, and there is at least one piece.
\<close>

lemma split_ws_pieces:
  "w \<in> set (split_ws s) \<Longrightarrow> \<not> list_ex isWhiteSpace w"
proof (induction s rule: split_ws.induct)
  case (1 s)
  let ?word = "takeWhile (\<lambda>c. \<not> isWhiteSpace c) s"
  let ?rest = "dropWhile (\<lambda>c. \<not> isWhiteSpace c) s"
  have word: "\<not> list_ex isWhiteSpace ?word"
    by (auto simp: list_ex_iff dest: set_takeWhileD)
  from 1(2) have w: "w \<in> set (if ?rest = [] then [?word]
      else ?word # split_ws (dropWhile isWhiteSpace ?rest))"
    by (subst (asm) split_ws.simps) (simp only: Let_def)
  show ?case
  proof (cases "?rest = []")
    case True
    with w have "w = ?word" by simp
    with word show ?thesis by simp
  next
    case False
    with w have "w = ?word \<or> w \<in> set (split_ws (dropWhile isWhiteSpace ?rest))"
      by (simp only: if_False set_simps insert_iff)
    with word 1(1) [OF refl refl False] show ?thesis
      by blast
  qed
qed

lemma split_ws_nonempty [simp]: "split_ws s \<noteq> []"
  by (simp add: split_ws.simps [of s] Let_def)

text \<open>
  The test of an idiom pattern finds a piece of the text that equals the pattern up to
  the case of its ASCII letters.
\<close>

lemma matchesAt_iff:
  "matchesAt p s \<longleftrightarrow>
   (\<exists>mid post. s = mid @ post \<and> map canonicalize mid = map canonicalize p)"
proof (induction p s rule: matchesAt.induct)
  case (1 s)
  show ?case by simp
next
  case (2 p ps)
  show ?case by simp
next
  case (3 p ps c cs)
  show ?case
  proof
    assume "matchesAt (p # ps) (c # cs)"
    with 3 obtain mid post where "canonicalize c = canonicalize p" "cs = mid @ post"
      "map canonicalize mid = map canonicalize ps"
      by auto
    then have "c # cs = (c # mid) @ post \<and> map canonicalize (c # mid) = map canonicalize (p # ps)"
      by simp
    then show "\<exists>mid post. c # cs = mid @ post \<and> map canonicalize mid = map canonicalize (p # ps)"
      by blast
  next
    assume "\<exists>mid post. c # cs = mid @ post \<and> map canonicalize mid = map canonicalize (p # ps)"
    then obtain mid post where m: "c # cs = mid @ post"
      "map canonicalize mid = map canonicalize (p # ps)"
      by blast
    then obtain m ms where "mid = m # ms"
      by (cases mid) auto
    with m 3 show "matchesAt (p # ps) (c # cs)"
      by auto
  qed
qed

lemma matchesSomewhere_iff:
  "matchesSomewhere p s \<longleftrightarrow>
   (\<exists>pre mid post. s = pre @ mid @ post \<and> map canonicalize mid = map canonicalize p)"
proof (induction s)
  case Nil
  show ?case by (auto simp: matchesAt_iff)
next
  case (Cons c cs)
  show ?case
  proof
    assume "matchesSomewhere p (c # cs)"
    then consider "matchesAt p (c # cs)" | "matchesSomewhere p cs"
      by auto
    then show "\<exists>pre mid post. c # cs = pre @ mid @ post \<and> map canonicalize mid = map canonicalize p"
    proof cases
      case 1
      then obtain mid post where "c # cs = [] @ mid @ post" "map canonicalize mid = map canonicalize p"
        by (auto simp: matchesAt_iff)
      then show ?thesis by blast
    next
      case 2
      with Cons obtain pre mid post where "cs = pre @ mid @ post"
        "map canonicalize mid = map canonicalize p"
        by blast
      then have "c # cs = (c # pre) @ mid @ post" by simp
      with \<open>map canonicalize mid = map canonicalize p\<close> show ?thesis by blast
    qed
  next
    assume "\<exists>pre mid post. c # cs = pre @ mid @ post \<and> map canonicalize mid = map canonicalize p"
    then obtain pre mid post where m: "c # cs = pre @ mid @ post"
      "map canonicalize mid = map canonicalize p"
      by blast
    show "matchesSomewhere p (c # cs)"
    proof (cases pre)
      case Nil
      with m have "matchesAt p (c # cs)"
        by (auto simp: matchesAt_iff)
      then show ?thesis by simp
    next
      case (Cons a pre')
      with m have "cs = pre' @ mid @ post" by simp
      with m(2) Cons.IH have "matchesSomewhere p cs" by blast
      then show ?thesis by simp
    qed
  qed
qed

text \<open>
  \<open>/\{[\s\S]*\}/\<close> matches nothing exactly when no \<open>}\<close> follows a \<open>{\<close>; what it
  matches reaches from the first \<open>{\<close> to the last \<open>}\<close>.
\<close>

lemma jsonMatch_None_iff:
  "jsonMatch response = None \<longleftrightarrow>
   \<not> (\<exists>pre mid post. response = pre @ [123] @ mid @ [125] @ post)"
proof -
  let ?from = "dropWhile (\<lambda>c. c \<noteq> 123) response"
  have none: "jsonMatch response = None \<longleftrightarrow> 125 \<notin> set ?from"
    by (auto simp: jsonMatch_def Let_def dropWhile_eq_Nil_conv)
  have resp: "response = takeWhile (\<lambda>c. c \<noteq> 123) response @ ?from"
    by simp
  show ?thesis
  proof
    assume "jsonMatch response = None"
    with none have no: "125 \<notin> set ?from" by simp
    show "\<not> (\<exists>pre mid post. response = pre @ [123] @ mid @ [125] @ post)"
    proof
      assume "\<exists>pre mid post. response = pre @ [123] @ mid @ [125] @ post"
      then obtain pre mid post where r: "response = pre @ [123] @ mid @ [125] @ post"
        by blast
      have "125 \<in> set (dropWhile (\<lambda>c. c \<noteq> 123) (pre @ [123] @ mid @ [125] @ post))"
        by (induction pre) auto
      with no r show False by simp
    qed
  next
    assume a: "\<not> (\<exists>pre mid post. response = pre @ [123] @ mid @ [125] @ post)"
    have "125 \<notin> set ?from"
    proof
      assume in_from: "125 \<in> set ?from"
      then have "?from \<noteq> []" by (metis empty_iff empty_set)
      then have "hd ?from = 123"
        using hd_dropWhile [of "\<lambda>c. c \<noteq> 123" response] by simp
      with \<open>?from \<noteq> []\<close> obtain tl' where f: "?from = 123 # tl'"
        by (cases ?from) auto
      with in_from have "125 \<in> set tl'" by simp
      then obtain mid post where "tl' = mid @ 125 # post"
        by (auto simp: in_set_conv_decomp)
      with f resp have "response = takeWhile (\<lambda>c. c \<noteq> 123) response @ [123] @ mid @ [125] @ post"
        by simp
      with a show False by blast
    qed
    with none show "jsonMatch response = None" by simp
  qed
qed

lemma jsonMatch_Some:
  assumes "jsonMatch response = Some m"
  shows "\<exists>pre post. response = pre @ m @ post \<and> 123 \<notin> set pre \<and> 125 \<notin> set post
           \<and> hd m = 123 \<and> last m = 125"
proof -
  let ?pre = "takeWhile (\<lambda>c. c \<noteq> 123) response"
  let ?from = "dropWhile (\<lambda>c. c \<noteq> 123) response"
  let ?post = "rev (takeWhile (\<lambda>c. c \<noteq> 125) (rev ?from))"
  from assms have m: "m = rev (dropWhile (\<lambda>c. c \<noteq> 125) (rev ?from))" and ne: "m \<noteq> []"
    by (auto simp: jsonMatch_def Let_def split: if_splits)
  have "rev ?from = takeWhile (\<lambda>c. c \<noteq> 125) (rev ?from) @ dropWhile (\<lambda>c. c \<noteq> 125) (rev ?from)"
    by simp
  then have "rev (rev ?from) = rev (takeWhile (\<lambda>c. c \<noteq> 125) (rev ?from)
      @ dropWhile (\<lambda>c. c \<noteq> 125) (rev ?from))"
    by (rule arg_cong)
  then have split: "?from = m @ ?post"
    unfolding m by (simp only: rev_rev_ident rev_append)
  then have 1: "response = ?pre @ m @ ?post"
    by (metis takeWhile_dropWhile_id)
  have 2: "123 \<notin> set ?pre"
    by (auto dest: set_takeWhileD)
  have 3: "125 \<notin> set ?post"
    by (auto dest: set_takeWhileD)
  from ne split have "?from \<noteq> []" by (metis append_is_Nil_conv)
  then have "hd ?from = 123"
    using hd_dropWhile [of "\<lambda>c. c \<noteq> 123" response] by simp
  with ne split have 4: "hd m = 123"
    by (metis hd_append2)
  from ne have "dropWhile (\<lambda>c. c \<noteq> 125) (rev ?from) \<noteq> []"
    unfolding m by simp
  then have "hd (dropWhile (\<lambda>c. c \<noteq> 125) (rev ?from)) = 125"
    using hd_dropWhile [of "\<lambda>c. c \<noteq> 125" "rev ?from"] by simp
  with ne have 5: "last m = 125"
    unfolding m by (simp add: last_rev)
  from 1 2 3 4 5 show ?thesis by blast
qed

section \<open>The pieces of a split and the words of a text\<close>

lemma spec_words_skip:
  "list_all isWhiteSpace a \<Longrightarrow> spec_words (a @ s) = spec_words s"
  by (induction a) simp_all

lemma spec_words_run:
  assumes "a \<noteq> []" and "list_all (\<lambda>c. \<not> isWhiteSpace c) a" and "s = [] \<or> isWhiteSpace (hd s)"
  shows "spec_words (a @ s) = a # spec_words s"
  using assms
proof (induction a)
  case Nil
  then show ?case by simp
next
  case (Cons c a)
  show ?case
  proof (cases "a = []")
    case True
    with Cons.prems show ?thesis by auto
  next
    case False
    with Cons have "spec_words (a @ s) = a # spec_words s"
      by simp
    moreover from False Cons.prems have "\<not> isWhiteSpace (hd (a @ s))" "a @ s \<noteq> []"
      by (cases a; simp)+
    ultimately show ?thesis
      using Cons.prems by simp
  qed
qed

text \<open>
  \<open>split(/\s+/)\<close> gives the words of the text, and one empty piece more in front when
  the text is empty or starts with white space, and one more at the end when it ends with
  white space.
\<close>

lemma split_ws_spec_words:
  "split_ws s =
     (if s = [] \<or> isWhiteSpace (hd s) then [[]] else [])
     @ spec_words s
     @ (if s \<noteq> [] \<and> isWhiteSpace (last s) then [[]] else [])"
proof (induction s rule: split_ws.induct)
  case (1 s)
  let ?word = "takeWhile (\<lambda>c. \<not> isWhiteSpace c) s"
  let ?rest = "dropWhile (\<lambda>c. \<not> isWhiteSpace c) s"
  let ?run = "takeWhile isWhiteSpace ?rest"
  let ?next = "dropWhile isWhiteSpace ?rest"
  have word: "list_all (\<lambda>c. \<not> isWhiteSpace c) ?word"
    by (auto simp: list_all_iff dest: set_takeWhileD)
  show ?case
  proof (cases "?rest = []")
    case True
    then have all: "list_all (\<lambda>c. \<not> isWhiteSpace c) s"
      by (simp add: list_all_iff)
    from True have split: "split_ws s = [s]"
      by (simp add: split_ws.simps [of s] Let_def)
    show ?thesis
    proof (cases "s = []")
      case True
      with split show ?thesis by simp
    next
      case False
      with all have "\<not> isWhiteSpace (hd s)" "\<not> isWhiteSpace (last s)"
        by (simp_all add: list_all_iff)
      moreover from False all have "spec_words (s @ []) = s # spec_words []"
        by (intro spec_words_run) simp_all
      ultimately show ?thesis
        using False split by simp
    qed
  next
    case False
    then have split: "split_ws s = ?word # split_ws ?next"
      by (auto simp: split_ws.simps [of s] Let_def)
    from False have first: "isWhiteSpace (hd ?rest)"
      using hd_dropWhile [of "\<lambda>c. \<not> isWhiteSpace c" s] by simp
    have run: "list_all isWhiteSpace ?run"
      by (auto simp: list_all_iff dest: set_takeWhileD)
    from False first have run_ne: "?run \<noteq> []"
      by (cases ?rest) simp_all
    have nonempty: "s \<noteq> []"
      using False by auto
    have IH: "split_ws ?next =
       (if ?next = [] \<or> isWhiteSpace (hd ?next) then [[]] else [])
       @ spec_words ?next
       @ (if ?next \<noteq> [] \<and> isWhiteSpace (last ?next) then [[]] else [])"
      using False by (intro "1.IH") simp_all
    have next_hd: "?next \<noteq> [] \<Longrightarrow> \<not> isWhiteSpace (hd ?next)"
      by (rule hd_dropWhile)
    have words_rest: "spec_words ?rest = spec_words ?next"
      using spec_words_skip [OF run, of ?next] by simp
    have words: "spec_words s = (if ?word = [] then [] else [?word]) @ spec_words ?next"
    proof (cases "?word = []")
      case True
      then have "?rest = s"
        by (metis append_Nil takeWhile_dropWhile_id)
      with True words_rest show ?thesis by simp
    next
      case w: False
      have "spec_words (?word @ ?rest) = ?word # spec_words ?rest"
        using w word first False by (intro spec_words_run) simp_all
      with w words_rest show ?thesis
        by simp
    qed
    have lead: "isWhiteSpace (hd s) \<longleftrightarrow> ?word = []"
    proof
      assume "isWhiteSpace (hd s)"
      with nonempty show "?word = []"
        by (cases s) simp_all
    next
      assume "?word = []"
      then have "?rest = s"
        by (metis append_Nil takeWhile_dropWhile_id)
      with first show "isWhiteSpace (hd s)" by simp
    qed
    have trail: "isWhiteSpace (last s) \<longleftrightarrow> ?next = [] \<or> isWhiteSpace (last ?next)"
    proof (cases "?next = []")
      case True
      then have "?rest = ?run"
        by (metis append_Nil2 takeWhile_dropWhile_id)
      then have "last s = last ?run"
        using run_ne by (metis last_appendR takeWhile_dropWhile_id)
      moreover from run_ne have "isWhiteSpace (last ?run)"
        by (metis last_in_set set_takeWhileD)
      ultimately show ?thesis
        using True by metis
    next
      case n: False
      have "s = (?word @ ?run) @ ?next"
        by (metis append_assoc takeWhile_dropWhile_id)
      then have "last s = last ?next"
        using n by (metis last_appendR)
      with n show ?thesis by metis
    qed
    have pieces: "W # ((if N = [] \<or> isWhiteSpace (hd N) then [[]] else []) @ X
          @ (if N \<noteq> [] \<and> isWhiteSpace (last N) then [[]] else []))
        = (if u = [] \<or> isWhiteSpace (hd u) then [[]] else [])
          @ ((if W = [] then [] else [W]) @ X)
          @ (if u \<noteq> [] \<and> isWhiteSpace (last u) then [[]] else [])"
      if "u \<noteq> []" "isWhiteSpace (hd u) \<longleftrightarrow> W = []"
        "isWhiteSpace (last u) \<longleftrightarrow> N = [] \<or> isWhiteSpace (last N)"
        "N \<noteq> [] \<Longrightarrow> \<not> isWhiteSpace (hd N)" "N = [] \<Longrightarrow> X = []"
      for u W N :: jsstring and X :: "jsstring list"
      using that by (cases "N = []"; cases "W = []") simp_all
    show ?thesis
      unfolding split IH words
    proof (rule pieces [of s ?word ?next "spec_words ?next", OF nonempty lead trail])
      show "?next \<noteq> [] \<Longrightarrow> \<not> isWhiteSpace (hd ?next)"
        by (rule next_hd)
      show "?next = [] \<Longrightarrow> spec_words ?next = []"
        by (simp only: spec_words.simps)
    qed
  qed
qed

lemma wordCount_spec:
  "wordCount s =
     length (spec_words s)
     + (if s = [] \<or> isWhiteSpace (hd s) then 1 else 0)
     + (if s \<noteq> [] \<and> isWhiteSpace (last s) then 1 else 0)"
  unfolding wordCount_def by (subst split_ws_spec_words) simp

text \<open>The normalized text is trimmed, so its pieces are its words, unless it is empty.\<close>

lemma split_ws_trim:
  "split_ws (trim s) = (if trim s = [] then [[]] else spec_words (trim s))"
  using trim_ends [of s] by (subst split_ws_spec_words) simp

lemma spec_words_no_whitespace:
  "w \<in> set (spec_words s) \<Longrightarrow> w \<noteq> [] \<and> \<not> list_ex isWhiteSpace w"
proof -
  assume w: "w \<in> set (spec_words s)"
  then have "w \<in> set (split_ws s)"
    by (subst split_ws_spec_words) simp
  then have "\<not> list_ex isWhiteSpace w"
    by (rule split_ws_pieces)
  moreover have "[] \<notin> set (spec_words s)"
    by (induction s) (auto split: list.splits)
  ultimately show ?thesis
    using w by auto
qed


section \<open>The tests of the classifier, by what they say of the text\<close>

lemma canonicalize_same_letter:
  "canonicalize c = canonicalize p \<longleftrightarrow> spec_same_letter c p"
  by (auto simp: canonicalize_def spec_same_letter_def)

lemma map_canonicalize_same_letter:
  "map canonicalize a = map canonicalize b \<longleftrightarrow> list_all2 spec_same_letter a b"
  by (induction a arbitrary: b)
     (auto simp: list_all2_Cons1 canonicalize_same_letter Cons_eq_map_conv)

lemma matchesSomewhere_spec: "matchesSomewhere phrase s \<longleftrightarrow> spec_holds_phrase s phrase"
  by (simp add: matchesSomewhere_iff spec_holds_phrase_def map_canonicalize_same_letter)

lemma hasIdioms_spec:
  "hasIdioms s \<longleftrightarrow>
     spec_holds_phrase s (js ''it'' @ [39] @ js ''s raining cats and dogs'')
     \<or> spec_holds_phrase s (js ''early bird'')
     \<or> spec_holds_phrase s (js ''actions speak'')
     \<or> spec_holds_phrase s (js ''book by its cover'')"
  by (simp add: hasIdioms_def idiomPatterns_def matchesSomewhere_spec)

lemma hasSpecialChars_spec:
  "hasSpecialChars s \<longleftrightarrow>
     (\<exists>c \<in> set s.
        c \<notin> set (js ''ABCDEFGHIJKLMNOPQRSTUVWXYZ'') \<and> c \<notin> set (js ''abcdefghijklmnopqrstuvwxyz'')
        \<and> c \<notin> set (js ''0123456789_'') \<and> \<not> isWhiteSpace c
        \<and> c \<notin> set (js ''.,!?;:()'') \<and> c \<noteq> 39 \<and> c \<noteq> 34)"
proof -
  have "isWordChar c \<or> isPlainPunctuation c \<longleftrightarrow>
      c \<in> set (js ''ABCDEFGHIJKLMNOPQRSTUVWXYZ'') \<or> c \<in> set (js ''abcdefghijklmnopqrstuvwxyz'')
      \<or> c \<in> set (js ''0123456789_'') \<or> c \<in> set (js ''.,!?;:()'') \<or> c = 39 \<or> c = 34" for c
  proof -
    have "65 \<le> c \<and> c \<le> 90 \<longleftrightarrow> c \<in> set (js ''ABCDEFGHIJKLMNOPQRSTUVWXYZ'')"
      unfolding js_def by simp arith
    moreover have "97 \<le> c \<and> c \<le> 122 \<longleftrightarrow> c \<in> set (js ''abcdefghijklmnopqrstuvwxyz'')"
      unfolding js_def by simp arith
    moreover have "(48 \<le> c \<and> c \<le> 57) \<or> c = 95 \<longleftrightarrow> c \<in> set (js ''0123456789_'')"
      unfolding js_def by simp arith
    moreover have "isPlainPunctuation c \<longleftrightarrow> c \<in> set (js ''.,!?;:()'') \<or> c = 39 \<or> c = 34"
      unfolding isPlainPunctuation_def js_def by auto
    ultimately show ?thesis
      unfolding isWordChar_def by blast
  qed
  then show ?thesis
    unfolding hasSpecialChars_def list_ex_iff by blast
qed

section \<open>The retrieval resolver\<close>

text \<open>What the test of the program reads: own entries first.\<close>

lemma glossaryLookup_stored:
  "stored g w L = Some tr \<Longrightarrow> glossaryLookup E g w L = Inr (Str tr)"
  by (auto simp: stored_def glossaryLookup_def glossaryGet_def split: option.splits)

lemma glossaryLookup_plain_names:
  assumes "w \<notin> set Object_prototype_names" and "L \<notin> set Object_prototype_names"
  shows "glossaryLookup E g w L = Inr (case stored g w L of None \<Rightarrow> Undefined | Some tr \<Rightarrow> Str tr)"
  using assms
  by (auto simp: stored_def glossaryLookup_def glossaryGet_def inherited_other split: option.splits)

text \<open>
  For a word and a language that are no names of \<open>Object.prototype\<close>, the test is passed
  exactly when the document holds a translation that is not the empty string.
\<close>

lemma found_plain_names:
  assumes "w \<notin> set Object_prototype_names" and "L \<notin> set Object_prototype_names"
  shows "found E g w L \<longleftrightarrow> (\<exists>tr. stored g w L = Some tr \<and> tr \<noteq> [])"
  by (simp add: found_def glossaryLookup_plain_names [OF assms] split: option.splits)

lemma found_stored: "stored g w L = Some tr \<Longrightarrow> tr \<noteq> [] \<Longrightarrow> found E g w L"
  by (simp add: found_def glossaryLookup_stored)

lemma found_value:
  "found E g w L \<longleftrightarrow> (\<exists>v. glossaryLookup E g w L = Inr v \<and> truthy v)"
  by (auto simp: found_def split: sum.splits)

text \<open>Behind the test the second read gives the value the test has read.\<close>

lemma languageGet_found:
  "glossaryLookup E g w L = Inr v \<Longrightarrow> truthy v \<Longrightarrow> languageGet E (glossaryGet g w) L = Inr v"
  by (cases "glossaryGet g w") (auto simp: glossaryLookup_def)

text \<open>
  A read throws only on a built-in value, so only under a word that names a property of
  \<open>Object.prototype\<close>; such a word holds no white space and is its own single piece.
\<close>

lemma glossaryLookup_throws:
  "glossaryLookup E g w L = Inl e \<Longrightarrow> w \<in> set Object_prototype_names"
  by (auto simp: glossaryLookup_def glossaryGet_def inherited_def Object_prototype_names_def
        split: option.splits jsval.splits if_splits)

lemma names_no_whitespace:
  "w \<in> set Object_prototype_names \<Longrightarrow> \<not> list_ex isWhiteSpace w"
  by (auto simp: Object_prototype_names_def js_def isWhiteSpace_def)

lemma split_ws_single: "\<not> list_ex isWhiteSpace w \<Longrightarrow> split_ws w = [w]"
  by (simp add: split_ws.simps [of w] Let_def list_ex_iff)

lemma allWordsFound_True:
  "allWordsFound E g L ws = Inr True \<longleftrightarrow> list_all (\<lambda>w. found E g w L) ws"
  by (induction ws) (auto simp: found_def split: sum.splits)

lemma wordTranslations_found:
  "list_all (\<lambda>w. found E g w L) ws \<Longrightarrow>
   \<exists>vs. wordTranslations E g L ws = Inr vs
      \<and> list_all2 (\<lambda>w v. glossaryLookup E g w L = Inr v \<and> truthy v) ws vs"
proof (induction ws)
  case Nil
  then show ?case by simp
next
  case (Cons w ws)
  then obtain v where v: "glossaryLookup E g w L = Inr v" "truthy v"
    by (auto simp: found_value)
  from Cons obtain vs where vs: "wordTranslations E g L ws = Inr vs"
    "list_all2 (\<lambda>w v. glossaryLookup E g w L = Inr v \<and> truthy v) ws vs"
    by auto
  from v vs show ?case
    by (simp add: languageGet_found)
qed

lemma findPartialMatch_found:
  assumes "list_all (\<lambda>w. found E g w L) (split_ws text)"
  shows "\<exists>vs. list_all2 (\<lambda>w v. glossaryLookup E g w L = Inr v \<and> truthy v) (split_ws text) vs
     \<and> findPartialMatch E t text L g =
       Inr (Some (createSuccessResponse t
         (Str (joinValues E (js '' '') vs))
         (Str (js ''auto-detected'')) (Str L)
         (map_of
            [(js ''confidence'', Num (9 / 10)),
             (js ''cultural_notes'', Str (js ''Constructed from individual word translations'')),
             (js ''source'', Str (js ''rag_partial''))])))"
proof -
  from wordTranslations_found [OF assms] obtain vs
    where vs: "wordTranslations E g L (split_ws text) = Inr vs"
      "list_all2 (\<lambda>w v. glossaryLookup E g w L = Inr v \<and> truthy v) (split_ws text) vs"
    by blast
  moreover from assms have "allWordsFound E g L (split_ws text) = Inr True"
    by (simp add: allWordsFound_True)
  ultimately show ?thesis
    by (auto simp: findPartialMatch_def)
qed

lemma findPartialMatch_missing:
  assumes "\<not> list_all (\<lambda>w. found E g w L) (split_ws text)"
  shows "findPartialMatch E t text L g = Inr None \<or> (\<exists>e. findPartialMatch E t text L g = Inl e)"
proof -
  from assms have "allWordsFound E g L (split_ws text) \<noteq> Inr True"
    by (simp add: allWordsFound_True)
  then show ?thesis
    by (cases "allWordsFound E g L (split_ws text)") (auto simp: findPartialMatch_def)
qed

text \<open>
  The three outcomes of \<open>checkRAG\<close> on a glossary: the exact hit, the hit composed of
  the pieces of the normalized text, and the miss.
\<close>

lemma checkRAG_exact:
  assumes "loadGlossary gfile = Some g"
    and "glossaryLookup E g (trim (toLowerCase E text)) L = Inr v" and "truthy v"
  shows "checkRAG E t gfile text L sl =
     Some (createSuccessResponse t v
       (Str (orDefault sl (js ''auto-detected''))) (Str L)
       (map_of
          [(js ''confidence'', Num 1),
           (js ''cultural_notes'', Str (js ''Retrieved from local glossary'')),
           (js ''source'', Str (js ''rag''))]))"
  using assms by (simp add: checkRAG_def checkRAG_try_def languageGet_found)

lemma checkRAG_composed:
  assumes "loadGlossary gfile = Some g"
    and "\<not> found E g (trim (toLowerCase E text)) L"
    and "list_all (\<lambda>w. found E g w L) (split_ws (trim (toLowerCase E text)))"
  shows "\<exists>vs. list_all2 (\<lambda>w v. glossaryLookup E g w L = Inr v \<and> truthy v)
                (split_ws (trim (toLowerCase E text))) vs
     \<and> checkRAG E t gfile text L sl =
       Some (createSuccessResponse t
         (Str (joinValues E (js '' '') vs))
         (Str (js ''auto-detected'')) (Str L)
         (map_of
            [(js ''confidence'', Num (9 / 10)),
             (js ''cultural_notes'', Str (js ''Constructed from individual word translations'')),
             (js ''source'', Str (js ''rag_partial''))]))"
proof -
  let ?n = "trim (toLowerCase E text)"
  from findPartialMatch_found [OF assms(3), of t] obtain vs
    where vs: "list_all2 (\<lambda>w v. glossaryLookup E g w L = Inr v \<and> truthy v) (split_ws ?n) vs"
      and p: "findPartialMatch E t ?n L g =
       Inr (Some (createSuccessResponse t
         (Str (joinValues E (js '' '') vs))
         (Str (js ''auto-detected'')) (Str L)
         (map_of
            [(js ''confidence'', Num (9 / 10)),
             (js ''cultural_notes'', Str (js ''Constructed from individual word translations'')),
             (js ''source'', Str (js ''rag_partial''))])))"
    by blast
  have "\<exists>v. glossaryLookup E g ?n L = Inr v \<and> \<not> truthy v"
  proof (cases "glossaryLookup E g ?n L")
    case (Inl e)
    then have "split_ws ?n = [?n]"
      by (intro split_ws_single names_no_whitespace glossaryLookup_throws)
    with assms(2,3) show ?thesis by simp
  next
    case (Inr v)
    with assms(2) show ?thesis by (simp add: found_def)
  qed
  with assms(1) p have "checkRAG E t gfile text L sl =
       Some (createSuccessResponse t
         (Str (joinValues E (js '' '') vs))
         (Str (js ''auto-detected'')) (Str L)
         (map_of
            [(js ''confidence'', Num (9 / 10)),
             (js ''cultural_notes'', Str (js ''Constructed from individual word translations'')),
             (js ''source'', Str (js ''rag_partial''))]))"
    by (auto simp: checkRAG_def checkRAG_try_def)
  with vs show ?thesis by blast
qed

lemma checkRAG_miss:
  assumes "loadGlossary gfile = Some g"
    and "\<not> found E g (trim (toLowerCase E text)) L"
    and "\<not> list_all (\<lambda>w. found E g w L) (split_ws (trim (toLowerCase E text)))"
  shows "checkRAG E t gfile text L sl = None"
  using assms findPartialMatch_missing [OF assms(3), of t]
  by (auto simp: checkRAG_def checkRAG_try_def found_def split: sum.splits)

lemma checkRAG_null: "checkRAG E t HoldsNull text L sl = None"
  by (simp add: checkRAG_def checkRAG_try_def)

lemma checkRAG_formatted:
  "checkRAG E t gfile text L sl = Some r \<Longrightarrow> \<exists>d. r = formatStructuredOutput t d"
  by (auto simp: checkRAG_def checkRAG_try_def findPartialMatch_def createSuccessResponse_def
        Let_def split: option.splits if_splits sum.splits bool.splits)

text \<open>Joining strings with single spaces: a space before each but the first.\<close>

lemma join_spaces:
  "ts \<noteq> [] \<Longrightarrow> concat (map (\<lambda>tr. 32 # tr) ts) = 32 # join [32] ts"
  by (induction "[32::nat]" ts rule: join.induct) simp_all

lemma joinValues_strings: "joinValues E sep (map Str ts) = join sep ts"
  by (simp add: joinValues_def elementString_def comp_def)

text \<open>The built-in glossary: its keys, and what is stored under them.\<close>

lemma default_keys:
  "DEFAULT_GLOSSARY P = Some e \<Longrightarrow>
   P \<in> set [js ''hello'', js ''goodbye'', js ''thank you'', js ''yes'', js ''no'']"
  by (simp add: DEFAULT_GLOSSARY_def split: if_splits)

lemma default_translation_nonempty:
  "stored DEFAULT_GLOSSARY P L = Some tr \<Longrightarrow> tr \<noteq> []"
  by (auto simp: stored_def DEFAULT_GLOSSARY_def split: if_splits)

lemma default_key_shape:
  assumes "P \<in> set [js ''hello'', js ''goodbye'', js ''thank you'', js ''yes'', js ''no'']"
  shows "P \<noteq> []" "\<not> isWhiteSpace (hd P)" "\<not> isWhiteSpace (last P)"
    "\<forall>p \<in> set P. \<not> (65 \<le> p \<and> p \<le> 90)" "\<forall>p \<in> set P. p < 128"
  using assms by (auto simp: js_def isWhiteSpace_def)

lemma default_no_empty_phrase: "\<not> found E DEFAULT_GLOSSARY [] L"
  by (simp add: found_def glossaryLookup_def glossaryGet_def DEFAULT_GLOSSARY_def)

lemma rag_miss_good_morning:
  "checkRAG E t Unreadable (js ''good morning'') (js ''French'') sl = None"
proof -
  have n: "trim (toLowerCase E (js ''good morning'')) = js ''good morning''"
    by (simp add: str_eval)
  have tokens: "split_ws (js ''good morning'') = [js ''good'', js ''morning'']"
    by (simp add: str_eval)
  have "\<not> found E DEFAULT_GLOSSARY (js ''good morning'') (js ''French'')"
    "\<not> list_all (\<lambda>w. found E DEFAULT_GLOSSARY w (js ''French'')) [js ''good'', js ''morning'']"
    by (simp_all add: found_plain_names Object_prototype_names_def stored_def DEFAULT_GLOSSARY_def)
  then show ?thesis
    using checkRAG_miss [of Unreadable DEFAULT_GLOSSARY E "js ''good morning''" "js ''French''" t sl]
    by (simp add: n tokens)
qed

lemma rag_miss_xyzzy_plugh:
  "checkRAG E t Unreadable (js ''xyzzy plugh'') (js ''French'') sl = None"
proof -
  have n: "trim (toLowerCase E (js ''xyzzy plugh'')) = js ''xyzzy plugh''"
    by (simp add: str_eval)
  have tokens: "split_ws (js ''xyzzy plugh'') = [js ''xyzzy'', js ''plugh'']"
    by (simp add: str_eval)
  have "\<not> found E DEFAULT_GLOSSARY (js ''xyzzy plugh'') (js ''French'')"
    "\<not> list_all (\<lambda>w. found E DEFAULT_GLOSSARY w (js ''French'')) [js ''xyzzy'', js ''plugh'']"
    by (simp_all add: found_plain_names Object_prototype_names_def stored_def DEFAULT_GLOSSARY_def)
  then show ?thesis
    using checkRAG_miss [of Unreadable DEFAULT_GLOSSARY E "js ''xyzzy plugh''" "js ''French''" t sl]
    by (simp add: n tokens)
qed

text \<open>
  Claim C4. For every phrase \<open>P\<close> of the built-in glossary and every language \<open>L\<close>
  stored for it, \<open>checkRAG\<close> on \<open>P\<close>, written in any casing \<open>v\<close> (each letter as it is
  or as its ASCII capital) and surrounded by any white space, returns status
  \<open>success\<close>, confidence 1.0 and the stored translation, whatever the engine. The
  built-in glossary is the one in use when the glossary file cannot be read. The theorem
  after it applies this to the scenario \<open>hello\<close> to Spanish, which gives \<open>hola\<close>.
\<close>

theorem default_glossary_exact_hit:
  assumes "loadGlossary gfile = Some DEFAULT_GLOSSARY"
    and "stored DEFAULT_GLOSSARY P L = Some translation"
    and "list_all2 (\<lambda>c p. c = p \<or> (65 \<le> c \<and> c \<le> 90 \<and> c + 32 = p)) v P"
    and "list_all isWhiteSpace ws1" and "list_all isWhiteSpace ws2"
  shows "\<exists>r. checkRAG E t gfile (ws1 @ v @ ws2) L sl = Some r
           \<and> r (js ''status'') = Some (Str (js ''success''))
           \<and> r (js ''confidence'') = Some (Num 1)
           \<and> r (js ''translated_text'') = Some (Str translation)"
proof -
  from assms(2) obtain e where "DEFAULT_GLOSSARY P = Some e"
    by (auto simp: stored_def split: option.splits)
  then have key: "P \<in> set [js ''hello'', js ''goodbye'', js ''thank you'', js ''yes'', js ''no'']"
    by (rule default_keys)
  have lower: "toLowerCase E (ws1 @ v @ ws2) = ws1 @ P @ ws2"
    using assms(3) default_key_shape(4,5) [OF key] assms(4,5) by (rule toLowerCase_any_casing)
  have "trim (ws1 @ P @ ws2) = P"
    using default_key_shape(1-3) [OF key] assms(4,5) by (intro trim_surrounded) simp_all
  with lower have n: "trim (toLowerCase E (ws1 @ v @ ws2)) = P"
    by simp
  have nonempty: "translation \<noteq> []"
    using assms(2) by (rule default_translation_nonempty)
  have look: "glossaryLookup E DEFAULT_GLOSSARY (trim (toLowerCase E (ws1 @ v @ ws2))) L
      = Inr (Str translation)"
    unfolding n using assms(2) by (rule glossaryLookup_stored)
  let ?r = "createSuccessResponse t (Str translation)
       (Str (orDefault sl (js ''auto-detected''))) (Str L)
       (map_of
          [(js ''confidence'', Num 1),
           (js ''cultural_notes'', Str (js ''Retrieved from local glossary'')),
           (js ''source'', Str (js ''rag''))])"
  have "checkRAG E t gfile (ws1 @ v @ ws2) L sl = Some ?r"
    using assms(1) look nonempty by (intro checkRAG_exact) simp_all
  moreover have "?r (js ''status'') = Some (Str (js ''success''))"
    "?r (js ''confidence'') = Some (Num 1)"
    "?r (js ''translated_text'') = Some (Str translation)"
    by (simp_all add: csr_fields [OF _ _ _ _ _ _ refl])
  ultimately show ?thesis by blast
qed

theorem default_glossary_exact_hit_witness:
  "(\<exists>r. checkRAG exampleEngine (js ''2024-01-01T12:00:00.000Z'') Unreadable (js ''hello'')
            (js ''Spanish'') None = Some r
        \<and> r (js ''status'') = Some (Str (js ''success''))
        \<and> r (js ''confidence'') = Some (Num 1)
        \<and> r (js ''translated_text'') = Some (Str (js ''hola'')))
   \<and> (\<exists>r. checkRAG exampleEngine (js ''2024-01-01T12:00:00.000Z'') Unreadable
            ([9, 32] @ js ''Thank YOU'' @ [160, 10]) (js ''Japanese'') (Some (js ''English''))
          = Some r
        \<and> r (js ''status'') = Some (Str (js ''success''))
        \<and> r (js ''confidence'') = Some (Num 1)
        \<and> r (js ''translated_text'') = Some (Str [12354, 12426, 12364, 12392, 12358]))"
proof
  have load: "loadGlossary Unreadable = Some DEFAULT_GLOSSARY"
    by simp
  have "stored DEFAULT_GLOSSARY (js ''hello'') (js ''Spanish'') = Some (js ''hola'')"
    by (simp add: stored_def DEFAULT_GLOSSARY_def)
  moreover have "list_all2 (\<lambda>c p. c = p \<or> (65 \<le> c \<and> c \<le> 90 \<and> c + 32 = p))
      (js ''hello'') (js ''hello'')"
    by (simp add: js_def)
  ultimately show "\<exists>r. checkRAG exampleEngine (js ''2024-01-01T12:00:00.000Z'') Unreadable
            (js ''hello'') (js ''Spanish'') None = Some r
        \<and> r (js ''status'') = Some (Str (js ''success''))
        \<and> r (js ''confidence'') = Some (Num 1)
        \<and> r (js ''translated_text'') = Some (Str (js ''hola''))"
    using default_glossary_exact_hit [OF load, of "js ''hello''" "js ''Spanish''" "js ''hola''"
        "js ''hello''" "[]" "[]" exampleEngine "js ''2024-01-01T12:00:00.000Z''" None]
    by simp
next
  have load: "loadGlossary Unreadable = Some DEFAULT_GLOSSARY"
    by simp
  have "stored DEFAULT_GLOSSARY (js ''thank you'') (js ''Japanese'')
        = Some [12354, 12426, 12364, 12392, 12358]"
    by (simp add: stored_def DEFAULT_GLOSSARY_def)
  moreover have "list_all2 (\<lambda>c p. c = p \<or> (65 \<le> c \<and> c \<le> 90 \<and> c + 32 = p))
      (js ''Thank YOU'') (js ''thank you'')"
    by (simp add: js_def)
  moreover have "list_all isWhiteSpace [9, 32]" "list_all isWhiteSpace [160, 10]"
    by (simp_all add: isWhiteSpace_def)
  ultimately show "\<exists>r. checkRAG exampleEngine (js ''2024-01-01T12:00:00.000Z'') Unreadable
            ([9, 32] @ js ''Thank YOU'' @ [160, 10]) (js ''Japanese'') (Some (js ''English''))
          = Some r
        \<and> r (js ''status'') = Some (Str (js ''success''))
        \<and> r (js ''confidence'') = Some (Num 1)
        \<and> r (js ''translated_text'') = Some (Str [12354, 12426, 12364, 12392, 12358])"
    by (intro default_glossary_exact_hit [OF load])
qed

text \<open>
  Claim C3, as the program has it. The compositional fallback of \<open>checkRAG\<close> runs when
  the exact lookup of the normalized text \<open>n\<close> (lower case, trimmed) has failed. Its
  tokens are the words of \<open>n\<close>, the maximal runs of characters that are no white space,
  or the one empty token when \<open>n\<close> is empty. The program takes a token for present when
  \<open>glossary[token][L]\<close> is truthy. For a language and tokens that are no property names
  of \<open>Object.prototype\<close> that is: the glossary stores a translation of the token for
  \<open>L\<close>, and the translation is not the empty string. Under that reading the fallback
  succeeds if and only if every token is present. On success the result has status
  \<open>success\<close>, confidence 0.9, the source language \<open>auto-detected\<close> whatever source
  language \<open>sl\<close> the caller gave, and as translated text the stored translations \<open>ts\<close>
  of the tokens in their order, joined by single spaces (a space in front of each one
  gives the translated text with one space in front). With a token that is not present
  the result is a miss.
\<close>

theorem compositional_fallback:
  assumes "loadGlossary gfile = Some g"
    and "n = trim (toLowerCase E text)"
    and "tokens = (if n = [] then [[]] else spec_words n)"
    and "L \<notin> set Object_prototype_names"
    and "\<forall>w \<in> set tokens. w \<notin> set Object_prototype_names"
    and "\<not> (\<exists>tr. stored g n L = Some tr \<and> tr \<noteq> [])"
  shows "((\<forall>w \<in> set tokens. \<exists>tr. stored g w L = Some tr \<and> tr \<noteq> []) \<longrightarrow>
            (\<exists>r ts translated. checkRAG E t gfile text L sl = Some r
               \<and> list_all2 (\<lambda>w tr. stored g w L = Some tr) tokens ts
               \<and> concat (map (\<lambda>tr. 32 # tr) ts) = 32 # translated
               \<and> r (js ''translated_text'') = Some (Str translated)
               \<and> r (js ''status'') = Some (Str (js ''success''))
               \<and> r (js ''confidence'') = Some (Num (9 / 10))
               \<and> r (js ''source_language'') = Some (Str (js ''auto-detected''))))
       \<and> (\<not> (\<forall>w \<in> set tokens. \<exists>tr. stored g w L = Some tr \<and> tr \<noteq> []) \<longrightarrow>
            checkRAG E t gfile text L sl = None)"
proof -
  have tokens: "tokens = split_ws n"
    unfolding assms(2,3) by (simp add: split_ws_trim)
  have present: "found E g w L \<longleftrightarrow> (\<exists>tr. stored g w L = Some tr \<and> tr \<noteq> [])"
    if "w \<in> set tokens" for w
    using that assms(4,5) by (intro found_plain_names) simp_all
  have n_plain: "n \<notin> set Object_prototype_names"
  proof
    assume name: "n \<in> set Object_prototype_names"
    then have "split_ws n = [n]"
      by (intro split_ws_single names_no_whitespace)
    with tokens assms(5) name show False by simp
  qed
  have exact: "\<not> found E g (trim (toLowerCase E text)) L"
    using assms(6) found_plain_names [OF n_plain assms(4), of E g] unfolding assms(2) by simp
  have all: "list_all (\<lambda>w. found E g w L) (split_ws (trim (toLowerCase E text)))
      \<longleftrightarrow> (\<forall>w \<in> set tokens. \<exists>tr. stored g w L = Some tr \<and> tr \<noteq> [])"
    using present unfolding tokens assms(2) by (simp add: list_all_iff)
  show ?thesis
  proof (intro conjI impI)
    assume a: "\<forall>w \<in> set tokens. \<exists>tr. stored g w L = Some tr \<and> tr \<noteq> []"
    then have "list_all (\<lambda>w. found E g w L) (split_ws (trim (toLowerCase E text)))"
      using all by blast
    from checkRAG_composed [OF assms(1) exact this, of t sl] obtain vs
      where vs: "list_all2 (\<lambda>w v. glossaryLookup E g w L = Inr v \<and> truthy v) tokens vs"
        and r: "checkRAG E t gfile text L sl =
          Some (createSuccessResponse t
            (Str (joinValues E (js '' '') vs))
            (Str (js ''auto-detected'')) (Str L)
            (map_of
               [(js ''confidence'', Num (9 / 10)),
                (js ''cultural_notes'', Str (js ''Constructed from individual word translations'')),
                (js ''source'', Str (js ''rag_partial''))]))"
      unfolding tokens assms(2) by blast
    let ?r = "createSuccessResponse t
            (Str (joinValues E (js '' '') vs))
            (Str (js ''auto-detected'')) (Str L)
            (map_of
               [(js ''confidence'', Num (9 / 10)),
                (js ''cultural_notes'', Str (js ''Constructed from individual word translations'')),
                (js ''source'', Str (js ''rag_partial''))])"
    have "\<exists>ts. vs = map Str ts \<and> list_all2 (\<lambda>w tr. stored g w L = Some tr) tokens ts"
      using vs assms(5)
    proof (induction tokens vs rule: list_all2_induct)
      case Nil
      then show ?case by simp
    next
      case (Cons w ws v vs)
      then obtain ts where ts: "vs = map Str ts" "list_all2 (\<lambda>w tr. stored g w L = Some tr) ws ts"
        by auto
      from Cons.prems have "w \<notin> set Object_prototype_names"
        by simp
      from Cons.hyps(1) glossaryLookup_plain_names [OF this assms(4), of E g]
      obtain tr where "stored g w L = Some tr" "v = Str tr"
        by (cases "stored g w L") auto
      with ts have "v # vs = map Str (tr # ts)
          \<and> list_all2 (\<lambda>w tr. stored g w L = Some tr) (w # ws) (tr # ts)"
        by simp
      then show ?case by (rule exI [of _ "tr # ts"])
    qed
    then obtain ts where ts: "vs = map Str ts" "list_all2 (\<lambda>w tr. stored g w L = Some tr) tokens ts"
      by blast
    have "tokens \<noteq> []"
      unfolding tokens by simp
    with ts(2) have "ts \<noteq> []"
      by auto
    then have joined: "concat (map (\<lambda>tr. 32 # tr) ts) = 32 # joinValues E (js '' '') vs"
      unfolding ts(1) joinValues_strings by (simp add: join_spaces js_def)
    have fields: "?r (js ''translated_text'') = Some (Str (joinValues E (js '' '') vs))"
      "?r (js ''status'') = Some (Str (js ''success''))"
      "?r (js ''confidence'') = Some (Num (9 / 10))"
      "?r (js ''source_language'') = Some (Str (js ''auto-detected''))"
      by (simp_all add: csr_fields [OF _ _ _ _ _ _ refl])
    from r ts(2) joined fields
    show "\<exists>r ts translated. checkRAG E t gfile text L sl = Some r
               \<and> list_all2 (\<lambda>w tr. stored g w L = Some tr) tokens ts
               \<and> concat (map (\<lambda>tr. 32 # tr) ts) = 32 # translated
               \<and> r (js ''translated_text'') = Some (Str translated)
               \<and> r (js ''status'') = Some (Str (js ''success''))
               \<and> r (js ''confidence'') = Some (Num (9 / 10))
               \<and> r (js ''source_language'') = Some (Str (js ''auto-detected''))"
      by blast
  next
    assume "\<not> (\<forall>w \<in> set tokens. \<exists>tr. stored g w L = Some tr \<and> tr \<noteq> [])"
    then have "\<not> list_all (\<lambda>w. found E g w L) (split_ws (trim (toLowerCase E text)))"
      using all by blast
    with assms(1) exact show "checkRAG E t gfile text L sl = None"
      by (rule checkRAG_miss)
  qed
qed

text \<open>
  An instance with three tokens, one of them translated by two words, and white space of
  several kinds around them; and a text with a token the glossary does not hold.
\<close>

theorem compositional_fallback_witness:
  "(\<exists>r. checkRAG exampleEngine (js ''2024-01-01T12:00:00.000Z'') Unreadable
            ([32] @ js ''Goodbye'' @ [9, 32] @ js ''YES no'' @ [10])
            (js ''French'') (Some (js ''English'')) = Some r
        \<and> r (js ''translated_text'') = Some (Str (js ''au revoir oui non''))
        \<and> r (js ''status'') = Some (Str (js ''success''))
        \<and> r (js ''confidence'') = Some (Num (9 / 10))
        \<and> r (js ''source_language'') = Some (Str (js ''auto-detected'')))
   \<and> checkRAG exampleEngine (js ''2024-01-01T12:00:00.000Z'') Unreadable (js ''hello there'')
            (js ''French'') (Some (js ''English'')) = None"
proof
  let ?t = "js ''2024-01-01T12:00:00.000Z''"
  let ?text = "[32] @ js ''Goodbye'' @ [9, 32] @ js ''YES no'' @ [10]"
  let ?n = "js ''goodbye'' @ [9, 32] @ js ''yes no''"
  let ?tokens = "[js ''goodbye'', js ''yes'', js ''no'']"
  have load: "loadGlossary Unreadable = Some DEFAULT_GLOSSARY"
    by simp
  have n: "?n = trim (toLowerCase exampleEngine ?text)"
    by (simp add: str_eval)
  have tokens: "?tokens = (if ?n = [] then [[]] else spec_words ?n)"
    by (simp add: js_def isWhiteSpace_def)
  have plain: "js ''French'' \<notin> set Object_prototype_names"
    "\<forall>w \<in> set ?tokens. w \<notin> set Object_prototype_names"
    by (simp_all add: Object_prototype_names_def)
  have exact: "\<not> (\<exists>tr. stored DEFAULT_GLOSSARY ?n (js ''French'') = Some tr \<and> tr \<noteq> [])"
    by (simp add: stored_def DEFAULT_GLOSSARY_def js_def)
  have all: "\<forall>w \<in> set ?tokens. \<exists>tr. stored DEFAULT_GLOSSARY w (js ''French'') = Some tr \<and> tr \<noteq> []"
    by (simp add: stored_def DEFAULT_GLOSSARY_def)
  from compositional_fallback [OF load n tokens plain exact, of ?t "Some (js ''English'')"] all
  obtain r ts translated where r: "checkRAG exampleEngine ?t Unreadable ?text (js ''French'')
        (Some (js ''English'')) = Some r"
    and ts: "list_all2 (\<lambda>w tr. stored DEFAULT_GLOSSARY w (js ''French'') = Some tr) ?tokens ts"
    and joined: "concat (map (\<lambda>tr. 32 # tr) ts) = 32 # translated"
    and fields: "r (js ''translated_text'') = Some (Str translated)"
      "r (js ''status'') = Some (Str (js ''success''))"
      "r (js ''confidence'') = Some (Num (9 / 10))"
      "r (js ''source_language'') = Some (Str (js ''auto-detected''))"
    by blast
  from ts have "ts = [js ''au revoir'', js ''oui'', js ''non'']"
    by (auto simp: list_all2_Cons1 stored_def DEFAULT_GLOSSARY_def)
  with joined have "translated = js ''au revoir oui non''"
    by (simp add: js_def)
  with r fields show "\<exists>r. checkRAG exampleEngine ?t Unreadable ?text
            (js ''French'') (Some (js ''English'')) = Some r
        \<and> r (js ''translated_text'') = Some (Str (js ''au revoir oui non''))
        \<and> r (js ''status'') = Some (Str (js ''success''))
        \<and> r (js ''confidence'') = Some (Num (9 / 10))
        \<and> r (js ''source_language'') = Some (Str (js ''auto-detected''))"
    by simp
next
  let ?t = "js ''2024-01-01T12:00:00.000Z''"
  let ?n = "js ''hello there''"
  let ?tokens = "[js ''hello'', js ''there'']"
  have load: "loadGlossary Unreadable = Some DEFAULT_GLOSSARY"
    by simp
  have n: "?n = trim (toLowerCase exampleEngine (js ''hello there''))"
    by (simp add: str_eval)
  have tokens: "?tokens = (if ?n = [] then [[]] else spec_words ?n)"
    by (simp add: js_def isWhiteSpace_def)
  have plain: "js ''French'' \<notin> set Object_prototype_names"
    "\<forall>w \<in> set ?tokens. w \<notin> set Object_prototype_names"
    by (simp_all add: Object_prototype_names_def)
  have exact: "\<not> (\<exists>tr. stored DEFAULT_GLOSSARY ?n (js ''French'') = Some tr \<and> tr \<noteq> [])"
    by (simp add: stored_def DEFAULT_GLOSSARY_def)
  have missing: "\<not> (\<forall>w \<in> set ?tokens.
      \<exists>tr. stored DEFAULT_GLOSSARY w (js ''French'') = Some tr \<and> tr \<noteq> [])"
    by (simp add: stored_def DEFAULT_GLOSSARY_def)
  from compositional_fallback [OF load n tokens plain exact, of ?t "Some (js ''English'')"] missing
  show "checkRAG exampleEngine ?t Unreadable (js ''hello there'') (js ''French'')
      (Some (js ''English'')) = None"
    by blast
qed

text \<open>
  The claim as the specification states it fails in both directions. Every token of
  \<open>hi yes\<close> has its own entry for French in the glossary \<open>{hi: {French: ""}, yes:
  {French: "oui"}}\<close>, and the result is a miss: the program takes the empty translation
  for none. No token of \<open>constructor constructor\<close> has an entry in the built-in
  glossary, and the result for the target language \<open>name\<close> is a hit with the translated
  text \<open>Object Object\<close>: \<open>glossary["constructor"]\<close> is the function every object
  inherits, and its \<open>name\<close> is a non-empty string.
\<close>

theorem compositional_fallback_counterexample:
  "stored (map_of [(js ''hi'', map_of [(js ''French'', [])]),
                   (js ''yes'', map_of [(js ''French'', js ''oui'')])])
      (js ''hi'') (js ''French'') = Some []
   \<and> stored (map_of [(js ''hi'', map_of [(js ''French'', [])]),
                     (js ''yes'', map_of [(js ''French'', js ''oui'')])])
      (js ''yes'') (js ''French'') = Some (js ''oui'')
   \<and> checkRAG exampleEngine (js ''2024-01-01T12:00:00.000Z'')
        (Holds (map_of [(js ''hi'', map_of [(js ''French'', [])]),
                        (js ''yes'', map_of [(js ''French'', js ''oui'')])]))
        (js ''hi yes'') (js ''French'') None = None
   \<and> DEFAULT_GLOSSARY (js ''constructor'') = None
   \<and> (\<exists>r. checkRAG exampleEngine (js ''2024-01-01T12:00:00.000Z'') Unreadable
             (js ''constructor constructor'') (js ''name'') None = Some r
         \<and> r (js ''translated_text'') = Some (Str (js ''Object Object''))
         \<and> r (js ''status'') = Some (Str (js ''success'')))"
proof (intro conjI)
  let ?t = "js ''2024-01-01T12:00:00.000Z''"
  let ?g = "map_of [(js ''hi'', map_of [(js ''French'', [])]),
                    (js ''yes'', map_of [(js ''French'', js ''oui'')])]"
  show "stored ?g (js ''hi'') (js ''French'') = Some []"
    "stored ?g (js ''yes'') (js ''French'') = Some (js ''oui'')"
    by (simp_all add: stored_def)
  have n: "trim (toLowerCase exampleEngine (js ''hi yes'')) = js ''hi yes''"
    by (simp add: str_eval)
  have tokens: "split_ws (js ''hi yes'') = [js ''hi'', js ''yes'']"
    by (simp add: str_eval)
  have "\<not> found exampleEngine ?g (js ''hi yes'') (js ''French'')"
    "\<not> list_all (\<lambda>w. found exampleEngine ?g w (js ''French'')) [js ''hi'', js ''yes'']"
    by (simp_all add: found_plain_names Object_prototype_names_def stored_def)
  then show "checkRAG exampleEngine ?t (Holds ?g) (js ''hi yes'') (js ''French'') None = None"
    using checkRAG_miss [of "Holds ?g" ?g exampleEngine "js ''hi yes''" "js ''French''" ?t None]
    by (simp add: n tokens)
  show "DEFAULT_GLOSSARY (js ''constructor'') = None"
    by (simp add: DEFAULT_GLOSSARY_def)
  let ?text = "js ''constructor constructor''"
  have n2: "trim (toLowerCase exampleEngine ?text) = ?text"
    by (simp add: str_eval)
  have tokens2: "split_ws ?text = [js ''constructor'', js ''constructor'']"
    by (simp add: str_eval)
  have look: "glossaryLookup exampleEngine DEFAULT_GLOSSARY (js ''constructor'') (js ''name'')
      = Inr (Str (js ''Object''))"
    by (simp add: glossaryLookup_def glossaryGet_def DEFAULT_GLOSSARY_def inherited_def
          Object_prototype_names_def exampleEngine_def js_append [symmetric])
  have exact: "\<not> found exampleEngine DEFAULT_GLOSSARY (trim (toLowerCase exampleEngine ?text))
      (js ''name'')"
    unfolding n2
    by (simp add: found_def glossaryLookup_def glossaryGet_def DEFAULT_GLOSSARY_def inherited_def
          Object_prototype_names_def)
  have all: "list_all (\<lambda>w. found exampleEngine DEFAULT_GLOSSARY w (js ''name''))
      (split_ws (trim (toLowerCase exampleEngine ?text)))"
    unfolding n2 tokens2 by (simp add: found_def look)
  from checkRAG_composed [of Unreadable DEFAULT_GLOSSARY exampleEngine ?text "js ''name''" ?t None,
      OF _ exact all]
  obtain vs where vs: "list_all2 (\<lambda>w v. glossaryLookup exampleEngine DEFAULT_GLOSSARY w (js ''name'')
        = Inr v \<and> truthy v) [js ''constructor'', js ''constructor''] vs"
    and r: "checkRAG exampleEngine ?t Unreadable ?text (js ''name'') None =
       Some (createSuccessResponse ?t
         (Str (joinValues exampleEngine (js '' '') vs))
         (Str (js ''auto-detected'')) (Str (js ''name''))
         (map_of
            [(js ''confidence'', Num (9 / 10)),
             (js ''cultural_notes'', Str (js ''Constructed from individual word translations'')),
             (js ''source'', Str (js ''rag_partial''))]))"
    unfolding n2 tokens2 by auto
  from vs have "vs = [Str (js ''Object''), Str (js ''Object'')]"
    by (auto simp: list_all2_Cons1 look)
  then have "joinValues exampleEngine (js '' '') vs = js ''Object Object''"
    by (simp add: joinValues_def elementString_def js_def)
  with r show "\<exists>r. checkRAG exampleEngine ?t Unreadable ?text (js ''name'') None = Some r
         \<and> r (js ''translated_text'') = Some (Str (js ''Object Object''))
         \<and> r (js ''status'') = Some (Str (js ''success''))"
    by (simp add: csr_fields [OF _ _ _ _ _ _ refl])
qed

text \<open>
  Claim C10. An exact glossary hit reports the caller's source language when one is
  given (a non-empty string) and \<open>auto-detected\<close> when none is (\<open>null\<close>, or the empty
  string, which \<open>||\<close> takes for none); a compositional hit reports \<open>auto-detected\<close>
  whatever the caller gave. The hits are those of the program: its test \<open>found\<close> on the
  normalized text, and on each of its pieces after that has failed.
\<close>

theorem exact_hit_source_language:
  assumes "loadGlossary gfile = Some g" and "n = trim (toLowerCase E text)"
  shows "(found E g n L \<longrightarrow>
            (\<exists>r. checkRAG E t gfile text L sl = Some r
               \<and> (\<forall>s. sl = Some s \<and> s \<noteq> [] \<longrightarrow> r (js ''source_language'') = Some (Str s))
               \<and> (sl = None \<or> sl = Some [] \<longrightarrow>
                    r (js ''source_language'') = Some (Str (js ''auto-detected'')))))
       \<and> (\<not> found E g n L \<and> list_all (\<lambda>w. found E g w L) (split_ws n) \<longrightarrow>
            (\<exists>r. checkRAG E t gfile text L sl = Some r
               \<and> r (js ''source_language'') = Some (Str (js ''auto-detected''))))"
proof (intro conjI impI)
  assume "found E g n L"
  then obtain v where v: "glossaryLookup E g (trim (toLowerCase E text)) L = Inr v" "truthy v"
    unfolding assms(2) by (auto simp: found_value)
  let ?r = "createSuccessResponse t v
       (Str (orDefault sl (js ''auto-detected''))) (Str L)
       (map_of
          [(js ''confidence'', Num 1),
           (js ''cultural_notes'', Str (js ''Retrieved from local glossary'')),
           (js ''source'', Str (js ''rag''))])"
  have 1: "checkRAG E t gfile text L sl = Some ?r"
    using assms(1) v by (rule checkRAG_exact)
  have 2: "?r (js ''source_language'') = Some (Str (orDefault sl (js ''auto-detected'')))"
    by (simp add: csr_fields [OF _ _ _ _ _ _ refl])
  from 1 2 show "\<exists>r. checkRAG E t gfile text L sl = Some r
               \<and> (\<forall>s. sl = Some s \<and> s \<noteq> [] \<longrightarrow> r (js ''source_language'') = Some (Str s))
               \<and> (sl = None \<or> sl = Some [] \<longrightarrow>
                    r (js ''source_language'') = Some (Str (js ''auto-detected'')))"
    by auto
next
  assume a: "\<not> found E g n L \<and> list_all (\<lambda>w. found E g w L) (split_ws n)"
  from checkRAG_composed [OF assms(1), of E "text" L t sl] a
  obtain vs where 1: "checkRAG E t gfile text L sl =
       Some (createSuccessResponse t
         (Str (joinValues E (js '' '') vs))
         (Str (js ''auto-detected'')) (Str L)
         (map_of
            [(js ''confidence'', Num (9 / 10)),
             (js ''cultural_notes'', Str (js ''Constructed from individual word translations'')),
             (js ''source'', Str (js ''rag_partial''))]))"
    unfolding assms(2) by blast
  let ?r = "createSuccessResponse t
         (Str (joinValues E (js '' '') vs))
         (Str (js ''auto-detected'')) (Str L)
         (map_of
            [(js ''confidence'', Num (9 / 10)),
             (js ''cultural_notes'', Str (js ''Constructed from individual word translations'')),
             (js ''source'', Str (js ''rag_partial''))])"
  have 2: "?r (js ''source_language'') = Some (Str (js ''auto-detected''))"
    by (simp add: csr_fields [OF _ _ _ _ _ _ refl])
  from 1 2 show "\<exists>r. checkRAG E t gfile text L sl = Some r
               \<and> r (js ''source_language'') = Some (Str (js ''auto-detected''))"
    by blast
qed

theorem exact_hit_source_language_witness:
  "(\<exists>r. checkRAG exampleEngine (js ''2024-01-01T12:00:00.000Z'') Unreadable (js ''Hello'')
            (js ''German'') (Some (js ''English'')) = Some r
        \<and> r (js ''source_language'') = Some (Str (js ''English'')))
   \<and> (\<exists>r. checkRAG exampleEngine (js ''2024-01-01T12:00:00.000Z'') Unreadable (js ''Hello'')
            (js ''German'') None = Some r
        \<and> r (js ''source_language'') = Some (Str (js ''auto-detected'')))
   \<and> (\<exists>r. checkRAG exampleEngine (js ''2024-01-01T12:00:00.000Z'') Unreadable (js ''yes no'')
            (js ''German'') (Some (js ''English'')) = Some r
        \<and> r (js ''source_language'') = Some (Str (js ''auto-detected'')))"
proof (intro conjI)
  let ?t = "js ''2024-01-01T12:00:00.000Z''"
  let ?E = exampleEngine
  have load: "loadGlossary Unreadable = Some DEFAULT_GLOSSARY" by simp
  have n: "js ''hello'' = trim (toLowerCase ?E (js ''Hello''))"
    by (simp add: str_eval)
  have f: "found ?E DEFAULT_GLOSSARY (js ''hello'') (js ''German'')"
    by (simp add: found_plain_names Object_prototype_names_def stored_def DEFAULT_GLOSSARY_def)
  from exact_hit_source_language [OF load n, of "js ''German''" ?t "Some (js ''English'')"] f
  show "\<exists>r. checkRAG ?E ?t Unreadable (js ''Hello'') (js ''German'') (Some (js ''English'')) = Some r
        \<and> r (js ''source_language'') = Some (Str (js ''English''))"
    by auto
  from exact_hit_source_language [OF load n, of "js ''German''" ?t None] f
  show "\<exists>r. checkRAG ?E ?t Unreadable (js ''Hello'') (js ''German'') None = Some r
        \<and> r (js ''source_language'') = Some (Str (js ''auto-detected''))"
    by auto
  have n2: "js ''yes no'' = trim (toLowerCase ?E (js ''yes no''))"
    by (simp add: str_eval)
  have tokens: "split_ws (js ''yes no'') = [js ''yes'', js ''no'']"
    by (simp add: str_eval)
  have f2: "\<not> found ?E DEFAULT_GLOSSARY (js ''yes no'') (js ''German'')
      \<and> list_all (\<lambda>w. found ?E DEFAULT_GLOSSARY w (js ''German'')) (split_ws (js ''yes no''))"
    unfolding tokens
    by (simp add: found_plain_names Object_prototype_names_def stored_def DEFAULT_GLOSSARY_def)
  from exact_hit_source_language [OF load n2, of "js ''German''" ?t "Some (js ''English'')"] f2
  show "\<exists>r. checkRAG ?E ?t Unreadable (js ''yes no'') (js ''German'') (Some (js ''English'')) = Some r
        \<and> r (js ''source_language'') = Some (Str (js ''auto-detected''))"
    by auto
qed

text \<open>
  Claim C9, as the program has it. \<open>checkRAG\<close> returns a result or \<open>null\<close> and throws
  nothing. On a text that is empty or white space only it is a miss whenever the test of
  the program fails on the empty phrase for the target language (the glossary stores
  nothing or an empty translation under it), as is the case of the built-in glossary for
  every language. An exception in its body (here: the glossary document is \<open>null\<close>) is
  caught and gives a miss. A glossary file that cannot be read or parsed does not give a
  miss: \<open>loadGlossary\<close> catches that failure itself and resolution goes on with the
  built-in glossary.
\<close>

theorem resolve_empty_text_and_errors:
  "(list_all isWhiteSpace text \<and> loadGlossary gfile = Some g \<and> \<not> found E g [] L \<longrightarrow>
      checkRAG E t gfile text L sl = None)
   \<and> (list_all isWhiteSpace text \<longrightarrow> checkRAG E t Unreadable text L sl = None)
   \<and> checkRAG E t HoldsNull text L sl = None
   \<and> checkRAG E t Unreadable text L sl = checkRAG E t (Holds DEFAULT_GLOSSARY) text L sl"
proof -
  have miss: "checkRAG E t f text L sl = None"
    if "list_all isWhiteSpace text" "loadGlossary f = Some g'" "\<not> found E g' [] L"
    for f g'
  proof -
    from that(1) have n: "trim (toLowerCase E text) = []"
      by (rule trim_whitespace_only)
    from that(2,3) show ?thesis
      by (intro checkRAG_miss) (simp_all add: n split_ws_Nil)
  qed
  have "checkRAG E t Unreadable text L sl = None" if "list_all isWhiteSpace text"
    using miss [OF that, of Unreadable DEFAULT_GLOSSARY] by (simp add: default_no_empty_phrase)
  moreover have "checkRAG E t Unreadable text L sl
      = checkRAG E t (Holds DEFAULT_GLOSSARY) text L sl"
    by (simp add: checkRAG_def checkRAG_try_def)
  ultimately show ?thesis
    using miss [of gfile g] by (simp add: checkRAG_null)
qed

theorem resolve_empty_text_and_errors_witness:
  "checkRAG exampleEngine (js ''2024-01-01T12:00:00.000Z'')
      (Holds (map_of [(js ''hi'', map_of [(js ''French'', js ''salut'')])]))
      ([32, 9] @ [10]) (js ''French'') (Some (js ''English'')) = None
   \<and> checkRAG exampleEngine (js ''2024-01-01T12:00:00.000Z'') Unreadable [] (js ''French'') None
      = None
   \<and> checkRAG exampleEngine (js ''2024-01-01T12:00:00.000Z'') HoldsNull (js ''hello'')
        (js ''Spanish'') None = None"
proof -
  let ?g = "map_of [(js ''hi'', map_of [(js ''French'', js ''salut'')])]"
  have "list_all isWhiteSpace ([32, 9] @ [10])" "list_all isWhiteSpace []"
    by (simp_all add: isWhiteSpace_def)
  moreover have "loadGlossary (Holds ?g) = Some ?g
      \<and> \<not> found exampleEngine ?g [] (js ''French'')"
    by (simp add: found_plain_names Object_prototype_names_def stored_def)
  ultimately show ?thesis
    using resolve_empty_text_and_errors [of "[32, 9] @ [10]" "Holds ?g" ?g exampleEngine
        "js ''French''" "js ''2024-01-01T12:00:00.000Z''" "Some (js ''English'')"]
      resolve_empty_text_and_errors [of "[]" Unreadable DEFAULT_GLOSSARY exampleEngine
        "js ''French''" "js ''2024-01-01T12:00:00.000Z''" None]
      resolve_empty_text_and_errors [of "js ''hello''" HoldsNull DEFAULT_GLOSSARY exampleEngine
        "js ''Spanish''" "js ''2024-01-01T12:00:00.000Z''" None]
    by simp
qed

text \<open>
  The claim as the specification states it fails twice: with the glossary file
  unreadable, \<open>hello\<close> to Spanish is a hit, not a miss; and a glossary with an entry
  under the empty phrase gives a hit for the empty text.
\<close>

theorem resolve_miss_counterexample:
  "(\<exists>r. checkRAG exampleEngine (js ''2024-01-01T12:00:00.000Z'') Unreadable (js ''hello'')
            (js ''Spanish'') None = Some r
        \<and> r (js ''translated_text'') = Some (Str (js ''hola'')))
   \<and> (\<exists>r. checkRAG exampleEngine (js ''2024-01-01T12:00:00.000Z'')
            (Holds (map_of [([], map_of [(js ''French'', js ''rien'')])])) [] (js ''French'') None
          = Some r
        \<and> r (js ''translated_text'') = Some (Str (js ''rien'')))"
proof
  let ?t = "js ''2024-01-01T12:00:00.000Z''"
  let ?E = exampleEngine
  have n: "trim (toLowerCase ?E (js ''hello'')) = js ''hello''"
    by (simp add: str_eval)
  have "stored DEFAULT_GLOSSARY (js ''hello'') (js ''Spanish'') = Some (js ''hola'')"
    by (simp add: stored_def DEFAULT_GLOSSARY_def)
  then have "glossaryLookup ?E DEFAULT_GLOSSARY (js ''hello'') (js ''Spanish'')
      = Inr (Str (js ''hola''))"
    by (rule glossaryLookup_stored)
  then show "\<exists>r. checkRAG ?E ?t Unreadable (js ''hello'') (js ''Spanish'') None = Some r
        \<and> r (js ''translated_text'') = Some (Str (js ''hola''))"
    using checkRAG_exact [of Unreadable DEFAULT_GLOSSARY ?E "js ''hello''" "js ''Spanish''"
        "Str (js ''hola'')" ?t None]
    by (simp add: n csr_fields [OF _ _ _ _ _ _ refl])
next
  let ?t = "js ''2024-01-01T12:00:00.000Z''"
  let ?E = exampleEngine
  let ?g = "map_of [([], map_of [(js ''French'', js ''rien'')])]"
  have n: "trim (toLowerCase ?E []) = []"
    by (simp add: str_eval)
  have "stored ?g [] (js ''French'') = Some (js ''rien'')"
    by (simp add: stored_def)
  then have "glossaryLookup ?E ?g [] (js ''French'') = Inr (Str (js ''rien''))"
    by (rule glossaryLookup_stored)
  then show "\<exists>r. checkRAG ?E ?t (Holds ?g) [] (js ''French'') None = Some r
        \<and> r (js ''translated_text'') = Some (Str (js ''rien''))"
    using checkRAG_exact [of "Holds ?g" ?g ?E "[]" "js ''French''" "Str (js ''rien'')" ?t None]
    by (simp add: n csr_fields [OF _ _ _ _ _ _ refl])
qed

section \<open>The complexity classifier and the prompts\<close>

lemmas classify_eval =
  wordCount_def hasIdioms_def idiomPatterns_def canonicalize_def hasSpecialChars_def
  isWordChar_def isPlainPunctuation_def str_eval

text \<open>
  The classifier by what its three tests say of the text. Its count is the number of
  pieces of \<open>text.split(/\s+/)\<close>: the number of words of the text, plus one when the
  text is empty or starts with white space, plus one when it ends with white space.
\<close>

lemma classifier_by_pieces:
  assumes "pieces = length (spec_words text)
             + (if text = [] \<or> isWhiteSpace (hd text) then 1 else 0)
             + (if text \<noteq> [] \<and> isWhiteSpace (last text) then 1 else 0)"
    and "idiom \<longleftrightarrow>
           spec_holds_phrase text (js ''it'' @ [39] @ js ''s raining cats and dogs'')
           \<or> spec_holds_phrase text (js ''early bird'')
           \<or> spec_holds_phrase text (js ''actions speak'')
           \<or> spec_holds_phrase text (js ''book by its cover'')"
    and "special \<longleftrightarrow>
           (\<exists>c \<in> set text.
              c \<notin> set (js ''ABCDEFGHIJKLMNOPQRSTUVWXYZ'')
              \<and> c \<notin> set (js ''abcdefghijklmnopqrstuvwxyz'')
              \<and> c \<notin> set (js ''0123456789_'') \<and> \<not> isWhiteSpace c
              \<and> c \<notin> set (js ''.,!?;:()'') \<and> c \<noteq> 39 \<and> c \<noteq> 34)"
  shows "getTranslationPrompt text targetLang sourceLang =
     (if pieces \<le> 5 \<and> \<not> idiom \<and> \<not> special
      then getZeroShotPrompt text targetLang sourceLang
      else if pieces \<le> 15 \<and> \<not> idiom
      then getOneShotPrompt text targetLang sourceLang
      else getMultiShotPrompt text targetLang sourceLang)"
proof -
  have "wordCount text = pieces"
    unfolding assms(1) by (rule wordCount_spec)
  moreover have "hasIdioms text = idiom"
    unfolding assms(2) by (rule hasIdioms_spec)
  moreover have "hasSpecialChars text = special"
    unfolding assms(3) by (rule hasSpecialChars_spec)
  ultimately show ?thesis
    by (auto simp: getTranslationPrompt_def analyzeTextComplexity_def)
qed

text \<open>
  Claim C5, as the program has it. For a text that neither starts nor ends with white
  space, \<open>getTranslationPrompt\<close> evaluates the heuristics in order, the first match
  winning: at most 5 words, no idiom and no special character give the zero-shot
  (minimal) prompt; otherwise at most 15 words and no idiom give the one-shot
  (single-example) prompt; every other text gets the multi-shot (multi-example) prompt.
  The words of the text are its maximal runs of characters that are no white space. An
  idiom is one of four phrases, found anywhere in the text, the case of ASCII letters set
  aside. A special character is any character other than the ASCII letters, the digits,
  the underscore, white space and the ten marks \<open>. , ! ? ; : ' " ( )\<close>; a letter outside
  ASCII is one.
\<close>

theorem classifier_selects_prompt:
  assumes "text = [] \<or> (\<not> isWhiteSpace (hd text) \<and> \<not> isWhiteSpace (last text))"
    and "idiom \<longleftrightarrow>
           spec_holds_phrase text (js ''it'' @ [39] @ js ''s raining cats and dogs'')
           \<or> spec_holds_phrase text (js ''early bird'')
           \<or> spec_holds_phrase text (js ''actions speak'')
           \<or> spec_holds_phrase text (js ''book by its cover'')"
    and "special \<longleftrightarrow>
           (\<exists>c \<in> set text.
              c \<notin> set (js ''ABCDEFGHIJKLMNOPQRSTUVWXYZ'')
              \<and> c \<notin> set (js ''abcdefghijklmnopqrstuvwxyz'')
              \<and> c \<notin> set (js ''0123456789_'') \<and> \<not> isWhiteSpace c
              \<and> c \<notin> set (js ''.,!?;:()'') \<and> c \<noteq> 39 \<and> c \<noteq> 34)"
  shows "getTranslationPrompt text targetLang sourceLang =
     (if length (spec_words text) \<le> 5 \<and> \<not> idiom \<and> \<not> special
      then getZeroShotPrompt text targetLang sourceLang
      else if length (spec_words text) \<le> 15 \<and> \<not> idiom
      then getOneShotPrompt text targetLang sourceLang
      else getMultiShotPrompt text targetLang sourceLang)"
proof (cases "text = []")
  case True
  then show ?thesis
    using classifier_by_pieces [OF refl assms(2,3), of targetLang sourceLang] by simp
next
  case False
  with assms(1) show ?thesis
    using classifier_by_pieces [OF refl assms(2,3), of targetLang sourceLang] by simp
qed

text \<open>
  Instances: two words with a comma and an exclamation mark (zero-shot); a percent sign
  (one-shot); six words (one-shot); an idiom in other casing (multi-shot); sixteen words
  (multi-shot); and the empty text (zero-shot).
\<close>

theorem classifier_selects_prompt_witness:
  "getTranslationPrompt (js ''Hello, world!'') (js ''French'') None
     = getZeroShotPrompt (js ''Hello, world!'') (js ''French'') None
   \<and> getTranslationPrompt (js ''50% off'') (js ''French'') None
     = getOneShotPrompt (js ''50% off'') (js ''French'') None
   \<and> getTranslationPrompt (js ''where is the train station please'') (js ''French'') None
     = getOneShotPrompt (js ''where is the train station please'') (js ''French'') None
   \<and> getTranslationPrompt (js ''The Early Bird wins'') (js ''French'') (Some (js ''English''))
     = getMultiShotPrompt (js ''The Early Bird wins'') (js ''French'') (Some (js ''English''))
   \<and> getTranslationPrompt (js ''a b c d e f g h i j k l m n o p'') (js ''French'') None
     = getMultiShotPrompt (js ''a b c d e f g h i j k l m n o p'') (js ''French'') None
   \<and> getTranslationPrompt [] (js ''French'') None = getZeroShotPrompt [] (js ''French'') None"
proof (intro conjI)
  let ?special = "\<lambda>text. \<exists>c \<in> set text.
              c \<notin> set (js ''ABCDEFGHIJKLMNOPQRSTUVWXYZ'')
              \<and> c \<notin> set (js ''abcdefghijklmnopqrstuvwxyz'')
              \<and> c \<notin> set (js ''0123456789_'') \<and> \<not> isWhiteSpace c
              \<and> c \<notin> set (js ''.,!?;:()'') \<and> c \<noteq> 39 \<and> c \<noteq> 34"
  have "length (spec_words (js ''Hello, world!'')) = 2"
    "\<not> isWhiteSpace (hd (js ''Hello, world!''))" "\<not> isWhiteSpace (last (js ''Hello, world!''))"
    "\<not> hasIdioms (js ''Hello, world!'')" "\<not> ?special (js ''Hello, world!'')"
    by (simp_all add: classify_eval)
  then show "getTranslationPrompt (js ''Hello, world!'') (js ''French'') None
     = getZeroShotPrompt (js ''Hello, world!'') (js ''French'') None"
    using classifier_selects_prompt [of "js ''Hello, world!''" False False "js ''French''" None]
    by (simp add: hasIdioms_spec)
next
  let ?special = "\<lambda>text. \<exists>c \<in> set text.
              c \<notin> set (js ''ABCDEFGHIJKLMNOPQRSTUVWXYZ'')
              \<and> c \<notin> set (js ''abcdefghijklmnopqrstuvwxyz'')
              \<and> c \<notin> set (js ''0123456789_'') \<and> \<not> isWhiteSpace c
              \<and> c \<notin> set (js ''.,!?;:()'') \<and> c \<noteq> 39 \<and> c \<noteq> 34"
  have "length (spec_words (js ''50% off'')) = 2"
    "\<not> isWhiteSpace (hd (js ''50% off''))" "\<not> isWhiteSpace (last (js ''50% off''))"
    "\<not> hasIdioms (js ''50% off'')" "?special (js ''50% off'')"
    by (simp_all add: classify_eval)
  then show "getTranslationPrompt (js ''50% off'') (js ''French'') None
     = getOneShotPrompt (js ''50% off'') (js ''French'') None"
    using classifier_selects_prompt [of "js ''50% off''" False True "js ''French''" None]
    by (simp add: hasIdioms_spec)
next
  let ?text = "js ''where is the train station please''"
  have "length (spec_words ?text) = 6"
    "\<not> isWhiteSpace (hd ?text)" "\<not> isWhiteSpace (last ?text)" "\<not> hasIdioms ?text"
    by (simp_all add: classify_eval)
  then show "getTranslationPrompt ?text (js ''French'') None
     = getOneShotPrompt ?text (js ''French'') None"
    using classifier_selects_prompt [of ?text False _ "js ''French''" None, OF _ _ refl]
    by (simp add: hasIdioms_spec)
next
  let ?text = "js ''The Early Bird wins''"
  have "length (spec_words ?text) = 4"
    "\<not> isWhiteSpace (hd ?text)" "\<not> isWhiteSpace (last ?text)" "hasIdioms ?text"
    by (simp_all add: classify_eval)
  then show "getTranslationPrompt ?text (js ''French'') (Some (js ''English''))
     = getMultiShotPrompt ?text (js ''French'') (Some (js ''English''))"
    using classifier_selects_prompt [of ?text True _ "js ''French''" "Some (js ''English'')",
        OF _ _ refl]
    by (simp add: hasIdioms_spec)
next
  let ?text = "js ''a b c d e f g h i j k l m n o p''"
  have "length (spec_words ?text) = 16"
    "\<not> isWhiteSpace (hd ?text)" "\<not> isWhiteSpace (last ?text)"
    by (simp_all add: classify_eval)
  then show "getTranslationPrompt ?text (js ''French'') None
     = getMultiShotPrompt ?text (js ''French'') None"
    using classifier_selects_prompt [of ?text _ _ "js ''French''" None, OF _ refl refl]
    by simp
next
  have "\<not> hasIdioms []"
    by (simp add: classify_eval)
  then show "getTranslationPrompt [] (js ''French'') None = getZeroShotPrompt [] (js ''French'') None"
    using classifier_selects_prompt [of "[]" False False "js ''French''" None]
    by (simp add: hasIdioms_spec)
qed

text \<open>The zero-shot and the one-shot prompt for the same request differ.\<close>

lemma zero_shot_not_one_shot:
  "getZeroShotPrompt text targetLang sourceLang \<noteq> getOneShotPrompt text targetLang sourceLang"
proof -
  have z: "js ''Please translate the following text to '' = js ''P'' @ js ''lease translate the following text to ''"
    by (simp add: js_append [symmetric])
  have e: "js ''Here's an example of how to translate:\<newline>\<newline>''
      = js ''H'' @ js ''ere's an example of how to translate:\<newline>\<newline>''"
    by (simp add: js_append [symmetric])
  show ?thesis
    unfolding getZeroShotPrompt_def getOneShotPrompt_def same_append_eq z e append_assoc
    by (rule prefixes_differ) simp_all
qed

text \<open>
  The claim as the specification states it fails three times. The text \<open>a b c d e\<close>
  behind one space has five words, no idiom and no special character, and it gets the
  one-shot prompt, not the zero-shot prompt: the split counts the empty piece in front of
  the space as a sixth word. So it does with the empty piece behind a space at the end.
  The text \<open>caf\<close> with \<open>e\<close> acute (U+00E9) at its end is one word of four letters,
  with no punctuation and no symbol, and it gets the one-shot prompt too: the class of
  the program takes every letter outside ASCII for a special character.
\<close>

theorem classifier_word_count_counterexample:
  "spec_words (js '' a b c d e'') = [js ''a'', js ''b'', js ''c'', js ''d'', js ''e'']
   \<and> \<not> hasIdioms (js '' a b c d e'')
   \<and> \<not> hasSpecialChars (js '' a b c d e'')
   \<and> wordCount (js '' a b c d e'') = 6
   \<and> getTranslationPrompt (js '' a b c d e'') (js ''French'') None
       = getOneShotPrompt (js '' a b c d e'') (js ''French'') None
   \<and> getTranslationPrompt (js '' a b c d e'') (js ''French'') None
       \<noteq> getZeroShotPrompt (js '' a b c d e'') (js ''French'') None
   \<and> spec_words (js ''a b c d e '') = [js ''a'', js ''b'', js ''c'', js ''d'', js ''e'']
   \<and> \<not> hasIdioms (js ''a b c d e '')
   \<and> \<not> hasSpecialChars (js ''a b c d e '')
   \<and> getTranslationPrompt (js ''a b c d e '') (js ''French'') None
       = getOneShotPrompt (js ''a b c d e '') (js ''French'') None
   \<and> getTranslationPrompt (js ''a b c d e '') (js ''French'') None
       \<noteq> getZeroShotPrompt (js ''a b c d e '') (js ''French'') None
   \<and> spec_words (js ''caf'' @ [233]) = [js ''caf'' @ [233]]
   \<and> \<not> hasIdioms (js ''caf'' @ [233])
   \<and> hasSpecialChars (js ''caf'' @ [233])
   \<and> getTranslationPrompt (js ''caf'' @ [233]) (js ''English'') None
       = getOneShotPrompt (js ''caf'' @ [233]) (js ''English'') None
   \<and> getTranslationPrompt (js ''caf'' @ [233]) (js ''English'') None
       \<noteq> getZeroShotPrompt (js ''caf'' @ [233]) (js ''English'') None"
proof -
  have facts: "spec_words (js '' a b c d e'') = [js ''a'', js ''b'', js ''c'', js ''d'', js ''e'']"
    "\<not> hasIdioms (js '' a b c d e'')" "\<not> hasSpecialChars (js '' a b c d e'')"
    "wordCount (js '' a b c d e'') = 6"
    by (simp_all add: classify_eval)
  then have one: "getTranslationPrompt (js '' a b c d e'') (js ''French'') None
       = getOneShotPrompt (js '' a b c d e'') (js ''French'') None"
    by (simp add: getTranslationPrompt_def analyzeTextComplexity_def)
  have facts2: "spec_words (js ''a b c d e '') = [js ''a'', js ''b'', js ''c'', js ''d'', js ''e'']"
    "\<not> hasIdioms (js ''a b c d e '')" "\<not> hasSpecialChars (js ''a b c d e '')"
    "wordCount (js ''a b c d e '') = 6"
    by (simp_all add: classify_eval)
  then have one2: "getTranslationPrompt (js ''a b c d e '') (js ''French'') None
       = getOneShotPrompt (js ''a b c d e '') (js ''French'') None"
    by (simp add: getTranslationPrompt_def analyzeTextComplexity_def)
  have facts3: "spec_words (js ''caf'' @ [233]) = [js ''caf'' @ [233]]"
    "\<not> hasIdioms (js ''caf'' @ [233])" "hasSpecialChars (js ''caf'' @ [233])"
    "wordCount (js ''caf'' @ [233]) = 1"
    by (simp_all add: classify_eval)
  then have one3: "getTranslationPrompt (js ''caf'' @ [233]) (js ''English'') None
       = getOneShotPrompt (js ''caf'' @ [233]) (js ''English'') None"
    by (simp add: getTranslationPrompt_def analyzeTextComplexity_def)
  from facts facts2(1-3) facts3(1-3) one one2 one3
    zero_shot_not_one_shot [of "js '' a b c d e''" "js ''French''" None, THEN not_sym]
    zero_shot_not_one_shot [of "js ''a b c d e ''" "js ''French''" None, THEN not_sym]
    zero_shot_not_one_shot [of "js ''caf'' @ [233]" "js ''English''" None, THEN not_sym]
  show ?thesis
    by simp
qed









section \<open>The response interpreter and \<open>translate\<close>\<close>

lemma translate_catch:
  "translate_try E t gfile JSON_parse generateContent text L sl = Inl thrown \<Longrightarrow>
   errorMessage E thrown = Inr m \<Longrightarrow>
   translate E t gfile JSON_parse generateContent text L sl =
     Inr (formatStructuredOutput t
       (map_of
          [(js ''source_language'', Str (orDefault sl (js ''unknown''))),
           (js ''target_language'', Str L),
           (js ''translated_text'', Str []),
           (js ''status'', Str (js ''error'')),
           (js ''error'', m)]))"
  by (simp add: translate_def)

lemma translate_raise:
  "translate_try E t gfile JSON_parse generateContent text L sl = Inl thrown \<Longrightarrow>
   errorMessage E thrown = Inl e \<Longrightarrow>
   translate E t gfile JSON_parse generateContent text L sl = Inl e"
  by (simp add: translate_def)

lemma translate_try_model_failure:
  "checkRAG E t gfile text L sl = None \<Longrightarrow>
   generateContent (getTranslationPrompt text L sl) = Inl thrown \<Longrightarrow>
   translate_try E t gfile JSON_parse generateContent text L sl = Inl thrown"
  by (simp add: translate_try_def)

text \<open>
  The message of an \<open>Error\<close> is read; the read throws on \<open>undefined\<close>, on \<open>null\<close>,
  and on no other value but a built-in one.
\<close>

lemma errorMessage_Error [simp]: "errorMessage E (thrownError (Error m)) = Inr (Str m)"
  by (simp add: thrownError_def getProp_def)

lemma errorMessage_reads:
  "thrown \<noteq> Undefined \<Longrightarrow> thrown \<noteq> Null \<Longrightarrow> \<forall>b. thrown \<noteq> Builtin b \<Longrightarrow>
   \<exists>m. errorMessage E thrown = Inr m"
  by (cases thrown) simp_all

text \<open>
  A value thrown in the body of \<open>translate\<close> is thrown by the model boundary (by the
  call or by \<open>response.text()\<close>), or it is a TypeError of the engine.
\<close>

lemma translate_try_thrown:
  assumes "translate_try E t gfile JSON_parse generateContent text L sl = Inl thrown"
  shows "generateContent (getTranslationPrompt text L sl) = Inl thrown
     \<or> (\<exists>resp. generateContent (getTranslationPrompt text L sl) = Inr resp
           \<and> text_result resp = Inl thrown)
     \<or> (\<exists>m. thrown = thrownError (Error m))"
proof -
  have error: "\<exists>m. thrownError e = thrownError (Error m)" for e
    by (cases e) auto
  from assms show ?thesis
    using error
    by (auto simp: translate_try_def Let_def
          split: option.splits sum.splits function_call.splits)
qed

lemma error_result_fields:
  assumes "r = formatStructuredOutput t
       (map_of
          [(js ''source_language'', Str (orDefault sl (js ''unknown''))),
           (js ''target_language'', Str L),
           (js ''translated_text'', Str []),
           (js ''status'', Str (js ''error'')),
           (js ''error'', m)])"
  shows "r (js ''status'') = Some (Str (js ''error''))"
    and "r (js ''translated_text'') = Some (Str [])"
    and "r (js ''error'') = Some m"
    and "r (js ''target_language'') = Some (Str L)"
    and "r (js ''source_language'') = Some (Str (orDefault sl (js ''unknown'')))"
    and "r (js ''confidence'') = Some (Num 1)"
    and "r (js ''cultural_notes'') = Some (Str [])"
    and "r (js ''timestamp'') = Some (Str t)"
  unfolding assms by (simp_all add: fso_fields getProp_def)

lemma text_result_fields:
  assumes "r = formatStructuredOutput t
       (map_of
          [(js ''source_language'', Str s),
           (js ''target_language'', Str L),
           (js ''translated_text'', Str tr),
           (js ''status'', Str st)])"
    and "s \<noteq> []" and "st \<noteq> []"
  shows "r (js ''status'') = Some (Str st)"
    and "r (js ''translated_text'') = Some (Str tr)"
    and "r (js ''error'') = Some Null"
    and "r (js ''target_language'') = Some (Str L)"
    and "r (js ''source_language'') = Some (Str s)"
    and "r (js ''confidence'') = Some (Num 1)"
  using assms(2,3) unfolding assms(1) by (simp_all add: fso_fields getProp_def)

lemma partial_result_fields:
  assumes "r = formatStructuredOutput t
       (map_of
          [(js ''source_language'', Str s),
           (js ''target_language'', Str L),
           (js ''translated_text'', Str tr),
           (js ''status'', Str (js ''partial_success'')),
           (js ''error'', Str m)])"
    and "s \<noteq> []"
  shows "r (js ''status'') = Some (Str (js ''partial_success''))"
    and "r (js ''translated_text'') = Some (Str tr)"
    and "r (js ''error'') = Some (Str m)"
    and "r (js ''target_language'') = Some (Str L)"
    and "r (js ''source_language'') = Some (Str s)"
  using assms(2) unfolding assms(1) by (simp_all add: fso_fields getProp_def)

lemma parseTextResponse_no_match:
  "jsonMatch response = None \<Longrightarrow>
   parseTextResponse t JSON_parse response L sl =
     formatStructuredOutput t
       (map_of
          [(js ''source_language'', Str (orDefault sl (js ''auto-detected''))),
           (js ''target_language'', Str L),
           (js ''translated_text'', Str (trim response)),
           (js ''status'', Str (js ''success''))])"
  by (simp add: parseTextResponse_def)

lemma parseTextResponse_parse_failure:
  "jsonMatch response = Some m \<Longrightarrow> JSON_parse m = None \<Longrightarrow>
   parseTextResponse t JSON_parse response L sl =
     formatStructuredOutput t
       (map_of
          [(js ''source_language'', Str (orDefault sl (js ''unknown''))),
           (js ''target_language'', Str L),
           (js ''translated_text'', Str (trim response)),
           (js ''status'', Str (js ''partial_success'')),
           (js ''error'', Str (js ''Failed to parse structured response''))])"
  by (simp add: parseTextResponse_def)

lemma parseTextResponse_formatted:
  "\<exists>d. parseTextResponse t JSON_parse response L sl = formatStructuredOutput t d"
  by (auto simp: parseTextResponse_def split: option.splits)

text \<open>The two ways through \<open>translate\<close> once the model has answered.\<close>

lemma translate_text_path:
  assumes "checkRAG E t gfile text L sl = None"
    and "generateContent (getTranslationPrompt text L sl) = Inr resp"
    and "logTokens (usageMetadata resp) = None"
    and "firstPart resp = Inr p"
    and "functionCall p = None \<or> (\<exists>name. functionCall p = Some (FunctionCall name None))"
    and "text_result resp = Inr response"
  shows "translate E t gfile JSON_parse generateContent text L sl
         = Inr (parseTextResponse t JSON_parse response L sl)"
  using assms by (auto simp: translate_def translate_try_def)

lemma translate_call_path:
  assumes "checkRAG E t gfile text L sl = None"
    and "generateContent (getTranslationPrompt text L sl) = Inr resp"
    and "logTokens (usageMetadata resp) = None"
    and "firstPart resp = Inr p"
    and "functionCall p = Some (FunctionCall name (Some args))"
  shows "translate E t gfile JSON_parse generateContent text L sl
         = Inr (formatStructuredOutput t
             (map_of
                [(js ''source_language'',
                    js_or (getProp args (js ''sourceLang'')) (Str (js ''auto-detected''))),
                 (js ''target_language'', getProp args (js ''targetLang'')),
                 (js ''translated_text'', getProp args (js ''translatedText'')),
                 (js ''status'', Str (js ''success''))]))"
  using assms by (simp add: translate_def translate_try_def)

text \<open>What \<open>translate\<close> returns went through the normalizer.\<close>

lemma translate_formatted:
  assumes "translate E t gfile JSON_parse generateContent text L sl = Inr r"
  shows "\<exists>d. r = formatStructuredOutput t d"
proof (cases "translate_try E t gfile JSON_parse generateContent text L sl")
  case (Inl thrown)
  with assms show ?thesis
    by (auto simp: translate_def split: sum.splits)
next
  case (Inr r')
  then have "\<exists>d. r' = formatStructuredOutput t d"
    using checkRAG_formatted [of E t gfile "text" L sl]
      parseTextResponse_formatted [of t JSON_parse _ L sl]
    by (auto simp: translate_try_def Let_def
          split: option.splits sum.splits function_call.splits)
  with Inr assms show ?thesis by (simp add: translate_def)
qed

lemma validated_field:
  assumes "validateFunctionArgs (Some args)"
    and "field \<in> {js ''sourceLang'', js ''targetLang'', js ''translatedText''}"
  shows "\<exists>s. args field = Some (Str s) \<and> s \<noteq> []"
proof -
  from assms have "truthy (getProp args field) \<and> isString (getProp args field)"
    by (auto simp: validateFunctionArgs_def)
  moreover from assms(2) have "inherited field = Undefined"
    by auto
  ultimately show ?thesis
    by (cases "args field"; cases "getProp args field") (auto simp: getProp_def)
qed

text \<open>
  Claim C2, as the program has it. When the glossary misses and the answer of the model
  carries a function call whose arguments hold \<open>sourceLang\<close>, \<open>targetLang\<close> and
  \<open>translatedText\<close> as non-empty strings (\<open>validateFunctionArgs\<close>), \<open>translate\<close>
  returns a success result whose source language, target language and translated text
  are those arguments. The confidence of the result is always the default 1.0 and its
  cultural notes are always empty: \<open>translate\<close> copies neither \<open>confidence\<close> nor
  \<open>culturalNotes\<close> from the call.
\<close>

theorem structured_call_result:
  assumes "checkRAG E t gfile text L sl = None"
    and "generateContent (getTranslationPrompt text L sl) = Inr resp"
    and "logTokens (usageMetadata resp) = None"
    and "firstPart resp = Inr p"
    and "functionCall p = Some (FunctionCall name (Some args))"
    and "validateFunctionArgs (Some args)"
  shows "\<exists>r. translate E t gfile JSON_parse generateContent text L sl = Inr r
       \<and> r (js ''status'') = Some (Str (js ''success''))
       \<and> r (js ''source_language'') = args (js ''sourceLang'')
       \<and> r (js ''target_language'') = args (js ''targetLang'')
       \<and> r (js ''translated_text'') = args (js ''translatedText'')
       \<and> r (js ''confidence'') = Some (Num 1)
       \<and> r (js ''cultural_notes'') = Some (Str [])
       \<and> r (js ''error'') = Some Null"
proof -
  from validated_field [OF assms(6)] obtain s l tr where
    a: "args (js ''sourceLang'') = Some (Str s)" "s \<noteq> []"
      "args (js ''targetLang'') = Some (Str l)" "l \<noteq> []"
      "args (js ''translatedText'') = Some (Str tr)" "tr \<noteq> []"
    by (metis insertCI)
  let ?r = "formatStructuredOutput t
             (map_of
                [(js ''source_language'',
                    js_or (getProp args (js ''sourceLang'')) (Str (js ''auto-detected''))),
                 (js ''target_language'', getProp args (js ''targetLang'')),
                 (js ''translated_text'', getProp args (js ''translatedText'')),
                 (js ''status'', Str (js ''success''))])"
  have "translate E t gfile JSON_parse generateContent text L sl = Inr ?r"
    using assms(1-5) by (rule translate_call_path)
  moreover have "?r (js ''status'') = Some (Str (js ''success''))"
    "?r (js ''source_language'') = args (js ''sourceLang'')"
    "?r (js ''target_language'') = args (js ''targetLang'')"
    "?r (js ''translated_text'') = args (js ''translatedText'')"
    "?r (js ''confidence'') = Some (Num 1)"
    "?r (js ''cultural_notes'') = Some (Str [])"
    "?r (js ''error'') = Some Null"
    using a by (simp_all add: fso_fields getProp_def)
  ultimately show ?thesis by blast
qed

theorem structured_call_result_witness:
  "\<exists>r. translate exampleEngine (js ''2024-01-01T12:00:00.000Z'') Unreadable (\<lambda>s. None)
      (\<lambda>prompt. Inr
         \<lparr>usageMetadata = None,
          candidates =
            [[Part (Some (FunctionCall (js ''translate_text'')
               (Some (map_of
                  [(js ''text'', Str (js ''good morning'')),
                   (js ''sourceLang'', Str (js ''English'')),
                   (js ''targetLang'', Str (js ''French'')),
                   (js ''translatedText'', Str (js ''bonjour''))]))))]],
          text_result = Inr []\<rparr>)
      (js ''good morning'') (js ''French'') None = Inr r
    \<and> r (js ''status'') = Some (Str (js ''success''))
    \<and> r (js ''source_language'') = Some (Str (js ''English''))
    \<and> r (js ''target_language'') = Some (Str (js ''French''))
    \<and> r (js ''translated_text'') = Some (Str (js ''bonjour''))
    \<and> r (js ''confidence'') = Some (Num 1)
    \<and> r (js ''cultural_notes'') = Some (Str [])
    \<and> r (js ''error'') = Some Null"
proof -
  let ?args = "map_of
         [(js ''text'', Str (js ''good morning'')),
          (js ''sourceLang'', Str (js ''English'')),
          (js ''targetLang'', Str (js ''French'')),
          (js ''translatedText'', Str (js ''bonjour''))]"
  let ?resp = "\<lparr>usageMetadata = None,
          candidates = [[Part (Some (FunctionCall (js ''translate_text'') (Some ?args)))]],
          text_result = Inr []\<rparr>"
  have v: "validateFunctionArgs (Some ?args)"
    by (simp add: validateFunctionArgs_def getProp_def)
  have u: "logTokens (usageMetadata ?resp) = None"
    by (simp add: logTokens_def)
  have p: "firstPart ?resp = Inr (Part (Some (FunctionCall (js ''translate_text'') (Some ?args))))"
    by (simp add: firstPart_def)
  from structured_call_result [of exampleEngine "js ''2024-01-01T12:00:00.000Z''" Unreadable
      "js ''good morning''" "js ''French''" None "\<lambda>prompt. Inr ?resp" ?resp
      "Part (Some (FunctionCall (js ''translate_text'') (Some ?args)))" "js ''translate_text''" ?args
      "\<lambda>s. None",
      OF rag_miss_good_morning refl u p _ v]
  show ?thesis by simp
qed

text \<open>
  The claim as the specification states it fails on the confidence: a call that carries
  the confidence 0.5 (and passes \<open>validateFunctionArgs\<close>) gives a result with the
  confidence 1.0.
\<close>

theorem structured_call_confidence_counterexample:
  "validateFunctionArgs
      (Some (map_of
         [(js ''text'', Str (js ''good morning'')),
          (js ''sourceLang'', Str (js ''English'')),
          (js ''targetLang'', Str (js ''French'')),
          (js ''translatedText'', Str (js ''bonjour'')),
          (js ''confidence'', Num (1 / 2)),
          (js ''culturalNotes'', Str (js ''informal''))]))
   \<and> (\<exists>r. translate exampleEngine (js ''2024-01-01T12:00:00.000Z'') Unreadable (\<lambda>s. None)
      (\<lambda>prompt. Inr
         \<lparr>usageMetadata = None,
          candidates =
            [[Part (Some (FunctionCall (js ''translate_text'')
               (Some (map_of
                  [(js ''text'', Str (js ''good morning'')),
                   (js ''sourceLang'', Str (js ''English'')),
                   (js ''targetLang'', Str (js ''French'')),
                   (js ''translatedText'', Str (js ''bonjour'')),
                   (js ''confidence'', Num (1 / 2)),
                   (js ''culturalNotes'', Str (js ''informal''))]))))]],
          text_result = Inr []\<rparr>)
      (js ''good morning'') (js ''French'') None = Inr r
      \<and> r (js ''confidence'') = Some (Num 1)
      \<and> r (js ''cultural_notes'') = Some (Str []))
   \<and> Num 1 \<noteq> Num (1 / 2)"
proof -
  let ?args = "map_of
         [(js ''text'', Str (js ''good morning'')),
          (js ''sourceLang'', Str (js ''English'')),
          (js ''targetLang'', Str (js ''French'')),
          (js ''translatedText'', Str (js ''bonjour'')),
          (js ''confidence'', Num (1 / 2)),
          (js ''culturalNotes'', Str (js ''informal''))]"
  let ?resp = "\<lparr>usageMetadata = None,
          candidates = [[Part (Some (FunctionCall (js ''translate_text'') (Some ?args)))]],
          text_result = Inr []\<rparr>"
  have v: "validateFunctionArgs (Some ?args)"
    by (simp add: validateFunctionArgs_def getProp_def)
  have u: "logTokens (usageMetadata ?resp) = None"
    by (simp add: logTokens_def)
  have p: "firstPart ?resp = Inr (Part (Some (FunctionCall (js ''translate_text'') (Some ?args))))"
    by (simp add: firstPart_def)
  have "\<exists>r. translate exampleEngine (js ''2024-01-01T12:00:00.000Z'') Unreadable (\<lambda>s. None)
      (\<lambda>prompt. Inr ?resp) (js ''good morning'') (js ''French'') None = Inr r
      \<and> r (js ''confidence'') = Some (Num 1) \<and> r (js ''cultural_notes'') = Some (Str [])"
    using translate_call_path [of exampleEngine "js ''2024-01-01T12:00:00.000Z''" Unreadable
        "js ''good morning''" "js ''French''" None "\<lambda>prompt. Inr ?resp" ?resp _
        "js ''translate_text''" ?args "\<lambda>s. None",
        OF rag_miss_good_morning refl u p]
    by (simp add: fso_confidence fso_cultural_notes)
  with v show ?thesis by simp
qed

text \<open>
  Claim C1, as the program has it. For a model response without a function-call payload,
  \<open>translate\<close> returns what \<open>parseTextResponse\<close> makes of the response text. The
  claim speaks of its two fallbacks (when the text holds a span that parses, the result
  is the parsed object, normalized). In both fallbacks the translated text is the whole
  response, trimmed, and the target language is the request's. When the text holds a
  \<open>{...}\<close> span that \<open>JSON.parse\<close> rejects, the status is \<open>partial_success\<close>, the
  error field holds the note that structured parsing failed, and the source language is
  the request's, or \<open>unknown\<close> without one. When the text holds no such span, nothing
  was parsed: the status is \<open>success\<close>, the error field is \<open>null\<close>, and the source
  language is the request's, or \<open>auto-detected\<close> without one.
\<close>

theorem text_fallback_result:
  assumes "r = parseTextResponse t JSON_parse response L sl"
  shows "(jsonMatch response = None \<longrightarrow>
            r (js ''status'') = Some (Str (js ''success''))
            \<and> r (js ''error'') = Some Null
            \<and> r (js ''translated_text'') = Some (Str (trim response))
            \<and> r (js ''target_language'') = Some (Str L)
            \<and> r (js ''source_language'') = Some (Str (orDefault sl (js ''auto-detected''))))
       \<and> (\<forall>m. jsonMatch response = Some m \<and> JSON_parse m = None \<longrightarrow>
            r (js ''status'') = Some (Str (js ''partial_success''))
            \<and> r (js ''error'') = Some (Str (js ''Failed to parse structured response''))
            \<and> r (js ''translated_text'') = Some (Str (trim response))
            \<and> r (js ''target_language'') = Some (Str L)
            \<and> r (js ''source_language'') = Some (Str (orDefault sl (js ''unknown''))))
       \<and> (checkRAG E t gfile text L sl = None
          \<and> generateContent (getTranslationPrompt text L sl) = Inr resp
          \<and> logTokens (usageMetadata resp) = None
          \<and> firstPart resp = Inr p
          \<and> (functionCall p = None \<or> (\<exists>name. functionCall p = Some (FunctionCall name None)))
          \<and> text_result resp = Inr response \<longrightarrow>
            translate E t gfile JSON_parse generateContent text L sl = Inr r)"
proof (intro conjI impI allI)
  assume "jsonMatch response = None"
  then have "r = formatStructuredOutput t
       (map_of
          [(js ''source_language'', Str (orDefault sl (js ''auto-detected''))),
           (js ''target_language'', Str L),
           (js ''translated_text'', Str (trim response)),
           (js ''status'', Str (js ''success''))])"
    unfolding assms by (rule parseTextResponse_no_match)
  note f = text_result_fields [OF this]
  show "r (js ''status'') = Some (Str (js ''success''))"
    "r (js ''error'') = Some Null"
    "r (js ''translated_text'') = Some (Str (trim response))"
    "r (js ''target_language'') = Some (Str L)"
    "r (js ''source_language'') = Some (Str (orDefault sl (js ''auto-detected'')))"
    by (simp_all add: f)
next
  fix m
  assume "jsonMatch response = Some m \<and> JSON_parse m = None"
  then have "r = formatStructuredOutput t
       (map_of
          [(js ''source_language'', Str (orDefault sl (js ''unknown''))),
           (js ''target_language'', Str L),
           (js ''translated_text'', Str (trim response)),
           (js ''status'', Str (js ''partial_success'')),
           (js ''error'', Str (js ''Failed to parse structured response''))])"
    unfolding assms by (simp add: parseTextResponse_parse_failure)
  note f = partial_result_fields [OF this]
  show "r (js ''status'') = Some (Str (js ''partial_success''))"
    "r (js ''error'') = Some (Str (js ''Failed to parse structured response''))"
    "r (js ''translated_text'') = Some (Str (trim response))"
    "r (js ''target_language'') = Some (Str L)"
    "r (js ''source_language'') = Some (Str (orDefault sl (js ''unknown'')))"
    by (simp_all add: f)
next
  assume "checkRAG E t gfile text L sl = None
          \<and> generateContent (getTranslationPrompt text L sl) = Inr resp
          \<and> logTokens (usageMetadata resp) = None
          \<and> firstPart resp = Inr p
          \<and> (functionCall p = None \<or> (\<exists>name. functionCall p = Some (FunctionCall name None)))
          \<and> text_result resp = Inr response"
  then show "translate E t gfile JSON_parse generateContent text L sl = Inr r"
    unfolding assms by (intro translate_text_path) auto
qed

text \<open>
  An instance: the response \<open>plugh xyzzy\<close> to the request \<open>xyzzy plugh\<close>, and a
  response that holds the span \<open>{bonjour}\<close>, the only text handed to \<open>JSON.parse\<close>
  here, which rejects it.
\<close>

theorem text_fallback_result_witness:
  "translate exampleEngine (js ''2024-01-01T12:00:00.000Z'') Unreadable (\<lambda>s. None)
      (\<lambda>prompt. Inr \<lparr>usageMetadata = Some \<lparr>promptTokenCount = Num 150,
                          candidatesTokenCount = Num 75, totalTokenCount = Num 225\<rparr>,
                        candidates = [[Part None]],
                        text_result = Inr (js ''plugh xyzzy'')\<rparr>)
      (js ''xyzzy plugh'') (js ''French'') None
    = Inr (parseTextResponse (js ''2024-01-01T12:00:00.000Z'') (\<lambda>s. None) (js ''plugh xyzzy'')
        (js ''French'') None)
   \<and> parseTextResponse (js ''2024-01-01T12:00:00.000Z'') (\<lambda>s. None) (js ''plugh xyzzy'')
        (js ''French'') None (js ''translated_text'') = Some (Str (js ''plugh xyzzy''))
   \<and> parseTextResponse (js ''2024-01-01T12:00:00.000Z'') (\<lambda>s. None) (js ''plugh xyzzy'')
        (js ''French'') None (js ''status'') = Some (Str (js ''success''))
   \<and> parseTextResponse (js ''2024-01-01T12:00:00.000Z'') (\<lambda>s. None) (js ''plugh xyzzy'')
        (js ''French'') None (js ''source_language'') = Some (Str (js ''auto-detected''))
   \<and> parseTextResponse (js ''2024-01-01T12:00:00.000Z'') (\<lambda>s. None)
        (js '' Voici: {bonjour} '') (js ''French'') (Some (js ''English''))
        (js ''status'') = Some (Str (js ''partial_success''))
   \<and> parseTextResponse (js ''2024-01-01T12:00:00.000Z'') (\<lambda>s. None)
        (js '' Voici: {bonjour} '') (js ''French'') (Some (js ''English''))
        (js ''error'') = Some (Str (js ''Failed to parse structured response''))
   \<and> parseTextResponse (js ''2024-01-01T12:00:00.000Z'') (\<lambda>s. None)
        (js '' Voici: {bonjour} '') (js ''French'') (Some (js ''English''))
        (js ''translated_text'') = Some (Str (js ''Voici: {bonjour}''))
   \<and> parseTextResponse (js ''2024-01-01T12:00:00.000Z'') (\<lambda>s. None)
        (js '' Voici: {bonjour} '') (js ''French'') (Some (js ''English''))
        (js ''source_language'') = Some (Str (js ''English''))"
proof -
  let ?t = "js ''2024-01-01T12:00:00.000Z''"
  let ?resp = "\<lparr>usageMetadata = Some \<lparr>promptTokenCount = Num 150,
                          candidatesTokenCount = Num 75, totalTokenCount = Num 225\<rparr>,
                 candidates = [[Part None]], text_result = Inr (js ''plugh xyzzy'')\<rparr>"
  have m1: "jsonMatch (js ''plugh xyzzy'') = None"
    by (simp add: jsonMatch_def js_def)
  have t1: "trim (js ''plugh xyzzy'') = js ''plugh xyzzy''"
    by (simp add: str_eval)
  have m2: "jsonMatch (js '' Voici: {bonjour} '') = Some (js ''{bonjour}'')"
    by (simp add: jsonMatch_def js_def)
  have t2: "trim (js '' Voici: {bonjour} '') = js ''Voici: {bonjour}''"
    by (simp add: str_eval)
  have p: "firstPart ?resp = Inr (Part None)"
    by (simp add: firstPart_def)
  from text_fallback_result [of _ ?t "\<lambda>s. None" "js ''plugh xyzzy''" "js ''French''" None
      exampleEngine Unreadable "js ''xyzzy plugh''" "\<lambda>prompt. Inr ?resp" ?resp "Part None",
      OF refl]
    text_fallback_result [of _ ?t "\<lambda>s. None" "js '' Voici: {bonjour} ''" "js ''French''"
      "Some (js ''English'')" exampleEngine Unreadable "js ''xyzzy plugh''" "\<lambda>prompt. Inr ?resp"
      ?resp "Part None", OF refl]
  show ?thesis
    by (simp add: m1 m2 t1 t2 p rag_miss_xyzzy_plugh logTokens_def)
qed

text \<open>
  The claim as the specification states it fails where no span is found: the response
  \<open>plugh xyzzy\<close> has no \<open>{...}\<close> span, and its result has the status \<open>success\<close> and
  no error, not \<open>partial_success\<close> and a diagnostic note.
\<close>

theorem text_fallback_counterexample:
  "jsonMatch (js ''plugh xyzzy'') = None
   \<and> parseTextResponse (js ''2024-01-01T12:00:00.000Z'') (\<lambda>s. None) (js ''plugh xyzzy'')
        (js ''French'') None (js ''status'') = Some (Str (js ''success''))
   \<and> parseTextResponse (js ''2024-01-01T12:00:00.000Z'') (\<lambda>s. None) (js ''plugh xyzzy'')
        (js ''French'') None (js ''status'') \<noteq> Some (Str (js ''partial_success''))
   \<and> parseTextResponse (js ''2024-01-01T12:00:00.000Z'') (\<lambda>s. None) (js ''plugh xyzzy'')
        (js ''French'') None (js ''error'') = Some Null"
proof -
  have m: "jsonMatch (js ''plugh xyzzy'') = None"
    by (simp add: jsonMatch_def js_def)
  note r = parseTextResponse_no_match [OF m, of "js ''2024-01-01T12:00:00.000Z''" "\<lambda>s. None"
      "js ''French''" None]
  show ?thesis
    using m text_result_fields(1,3) [OF r] by simp
qed

text \<open>
  Claim C7, as the program has it. When the call of the model throws, the \<open>catch\<close> of
  \<open>translate\<close> reads the property \<open>message\<close> of the value thrown and returns a result
  with the status \<open>error\<close>, an empty translated text and that property in the error
  field. For an \<open>Error\<close> that is its diagnostic message; for a value without such a
  property (a string, say) it is \<open>undefined\<close>. The read succeeds on every value but
  \<open>undefined\<close> and \<open>null\<close> (on a built-in object of the engine it is the engine's
  read). \<open>translate\<close> raises nothing to its caller unless the model boundary (the
  call, or \<open>text()\<close> of the response) has thrown a value whose message cannot be read,
  and then it raises the TypeError of that read; what it returns has all the fields of a
  result. This holds for every text, the empty one included.
\<close>

theorem upstream_failure_result:
  "(checkRAG E t gfile text L sl = None
    \<and> generateContent (getTranslationPrompt text L sl) = Inl thrown
    \<and> errorMessage E thrown = Inr m \<longrightarrow>
      (\<exists>r. translate E t gfile JSON_parse generateContent text L sl = Inr r
         \<and> r (js ''status'') = Some (Str (js ''error''))
         \<and> r (js ''translated_text'') = Some (Str [])
         \<and> r (js ''error'') = Some m
         \<and> r (js ''target_language'') = Some (Str L)
         \<and> r (js ''source_language'') = Some (Str (orDefault sl (js ''unknown'')))))
   \<and> (thrown \<noteq> Undefined \<and> thrown \<noteq> Null \<and> (\<forall>b. thrown \<noteq> Builtin b) \<longrightarrow>
        (\<exists>m. errorMessage E thrown = Inr m))
   \<and> errorMessage E (thrownError (Error msg)) = Inr (Str msg)
   \<and> (\<forall>e. translate E t gfile JSON_parse generateContent text L sl = Inl e \<longrightarrow>
        (\<exists>v. (generateContent (getTranslationPrompt text L sl) = Inl v
               \<or> (\<exists>resp. generateContent (getTranslationPrompt text L sl) = Inr resp
                     \<and> text_result resp = Inl v))
           \<and> (v = Undefined \<or> v = Null \<or> (\<exists>b. v = Builtin b))
           \<and> errorMessage E v = Inl e))
   \<and> (\<forall>r. translate E t gfile JSON_parse generateContent text L sl = Inr r \<longrightarrow>
        {js ''source_language'', js ''target_language'', js ''translated_text'',
         js ''status'', js ''timestamp'', js ''confidence'', js ''cultural_notes'',
         js ''error''} \<subseteq> dom r)"
proof (intro conjI impI allI)
  assume a: "checkRAG E t gfile text L sl = None
    \<and> generateContent (getTranslationPrompt text L sl) = Inl thrown
    \<and> errorMessage E thrown = Inr m"
  then have "translate_try E t gfile JSON_parse generateContent text L sl = Inl thrown"
    by (simp add: translate_try_model_failure)
  moreover from a have "errorMessage E thrown = Inr m"
    by simp
  ultimately have r: "translate E t gfile JSON_parse generateContent text L sl =
     Inr (formatStructuredOutput t
       (map_of
          [(js ''source_language'', Str (orDefault sl (js ''unknown''))),
           (js ''target_language'', Str L),
           (js ''translated_text'', Str []),
           (js ''status'', Str (js ''error'')),
           (js ''error'', m)]))"
    by (rule translate_catch)
  note f = error_result_fields [OF refl, of t sl L m]
  from r f(1-5)
  show "\<exists>r. translate E t gfile JSON_parse generateContent text L sl = Inr r
         \<and> r (js ''status'') = Some (Str (js ''error''))
         \<and> r (js ''translated_text'') = Some (Str [])
         \<and> r (js ''error'') = Some m
         \<and> r (js ''target_language'') = Some (Str L)
         \<and> r (js ''source_language'') = Some (Str (orDefault sl (js ''unknown'')))"
    by blast
next
  assume "thrown \<noteq> Undefined \<and> thrown \<noteq> Null \<and> (\<forall>b. thrown \<noteq> Builtin b)"
  then show "\<exists>m. errorMessage E thrown = Inr m"
    using errorMessage_reads [of thrown E] by blast
next
  show "errorMessage E (thrownError (Error msg)) = Inr (Str msg)"
    by (rule errorMessage_Error)
next
  fix e
  assume raised: "translate E t gfile JSON_parse generateContent text L sl = Inl e"
  then obtain v where v: "translate_try E t gfile JSON_parse generateContent text L sl = Inl v"
    and e: "errorMessage E v = Inl e"
    by (auto simp: translate_def split: sum.splits)
  from e have kind: "v = Undefined \<or> v = Null \<or> (\<exists>b. v = Builtin b)"
    using errorMessage_reads [of v E] by auto
  then have "\<not> (\<exists>m. v = thrownError (Error m))"
    by (auto simp: thrownError_def)
  with translate_try_thrown [OF v] kind e
  show "\<exists>v. (generateContent (getTranslationPrompt text L sl) = Inl v
               \<or> (\<exists>resp. generateContent (getTranslationPrompt text L sl) = Inr resp
                     \<and> text_result resp = Inl v))
           \<and> (v = Undefined \<or> v = Null \<or> (\<exists>b. v = Builtin b))
           \<and> errorMessage E v = Inl e"
    by blast
next
  fix r
  assume "translate E t gfile JSON_parse generateContent text L sl = Inr r"
  then obtain d where "r = formatStructuredOutput t d"
    using translate_formatted by blast
  then show "{js ''source_language'', js ''target_language'', js ''translated_text'',
         js ''status'', js ''timestamp'', js ''confidence'', js ''cultural_notes'',
         js ''error''} \<subseteq> dom r"
    by (simp only: fso_required_fields)
qed

text \<open>
  Instances: the call throws an \<open>Error\<close> with the message \<open>fetch failed\<close>; the call
  throws the string \<open>quota exceeded\<close>, which has no message.
\<close>

theorem upstream_failure_result_witness:
  "(\<exists>r. translate exampleEngine (js ''2024-01-01T12:00:00.000Z'') Unreadable (\<lambda>s. None)
         (\<lambda>prompt. Inl (thrownError (Error (js ''fetch failed''))))
         (js ''good morning'') (js ''French'') None = Inr r
       \<and> r (js ''status'') = Some (Str (js ''error''))
       \<and> r (js ''translated_text'') = Some (Str [])
       \<and> r (js ''error'') = Some (Str (js ''fetch failed''))
       \<and> r (js ''target_language'') = Some (Str (js ''French''))
       \<and> r (js ''source_language'') = Some (Str (js ''unknown'')))
   \<and> (\<exists>r. translate exampleEngine (js ''2024-01-01T12:00:00.000Z'') Unreadable (\<lambda>s. None)
         (\<lambda>prompt. Inl (Str (js ''quota exceeded'')))
         (js ''good morning'') (js ''French'') None = Inr r
       \<and> r (js ''status'') = Some (Str (js ''error''))
       \<and> r (js ''translated_text'') = Some (Str [])
       \<and> r (js ''error'') = Some Undefined
       \<and> r (js ''target_language'') = Some (Str (js ''French''))
       \<and> r (js ''source_language'') = Some (Str (js ''unknown'')))"
proof
  from upstream_failure_result [of exampleEngine "js ''2024-01-01T12:00:00.000Z''" Unreadable
      "js ''good morning''" "js ''French''" None
      "\<lambda>prompt. Inl (thrownError (Error (js ''fetch failed'')))"
      "thrownError (Error (js ''fetch failed''))" "Str (js ''fetch failed'')" "\<lambda>s. None"]
  show "\<exists>r. translate exampleEngine (js ''2024-01-01T12:00:00.000Z'') Unreadable (\<lambda>s. None)
         (\<lambda>prompt. Inl (thrownError (Error (js ''fetch failed''))))
         (js ''good morning'') (js ''French'') None = Inr r
       \<and> r (js ''status'') = Some (Str (js ''error''))
       \<and> r (js ''translated_text'') = Some (Str [])
       \<and> r (js ''error'') = Some (Str (js ''fetch failed''))
       \<and> r (js ''target_language'') = Some (Str (js ''French''))
       \<and> r (js ''source_language'') = Some (Str (js ''unknown''))"
    by (simp add: rag_miss_good_morning)
next
  from upstream_failure_result [of exampleEngine "js ''2024-01-01T12:00:00.000Z''" Unreadable
      "js ''good morning''" "js ''French''" None
      "\<lambda>prompt. Inl (Str (js ''quota exceeded''))" "Str (js ''quota exceeded'')" Undefined
      "\<lambda>s. None"]
  show "\<exists>r. translate exampleEngine (js ''2024-01-01T12:00:00.000Z'') Unreadable (\<lambda>s. None)
         (\<lambda>prompt. Inl (Str (js ''quota exceeded'')))
         (js ''good morning'') (js ''French'') None = Inr r
       \<and> r (js ''status'') = Some (Str (js ''error''))
       \<and> r (js ''translated_text'') = Some (Str [])
       \<and> r (js ''error'') = Some Undefined
       \<and> r (js ''target_language'') = Some (Str (js ''French''))
       \<and> r (js ''source_language'') = Some (Str (js ''unknown''))"
    by (simp add: rag_miss_good_morning)
qed

text \<open>
  The claim as the specification states it fails twice. When the call of the model
  throws \<open>undefined\<close> (a promise rejected without a reason), the read of its message
  throws in the \<open>catch\<close>, and \<open>translate\<close> raises that TypeError to its caller. When
  the call throws the string \<open>quota exceeded\<close>, the result is returned, and its error
  field is \<open>undefined\<close>, not a diagnostic message.
\<close>

theorem upstream_failure_counterexample:
  "translate exampleEngine (js ''2024-01-01T12:00:00.000Z'') Unreadable (\<lambda>s. None)
      (\<lambda>prompt. Inl Undefined) (js ''good morning'') (js ''French'') None
    = Inl (Error (js ''Cannot read properties of undefined (reading '' @ [39] @ js ''message''
                  @ [39] @ js '')''))
   \<and> (\<exists>r. translate exampleEngine (js ''2024-01-01T12:00:00.000Z'') Unreadable (\<lambda>s. None)
         (\<lambda>prompt. Inl (Str (js ''quota exceeded'')))
         (js ''good morning'') (js ''French'') None = Inr r
       \<and> r (js ''error'') = Some Undefined)"
proof
  have "translate_try exampleEngine (js ''2024-01-01T12:00:00.000Z'') Unreadable (\<lambda>s. None)
      (\<lambda>prompt. Inl Undefined) (js ''good morning'') (js ''French'') None = Inl Undefined"
    by (simp add: translate_try_model_failure rag_miss_good_morning)
  then show "translate exampleEngine (js ''2024-01-01T12:00:00.000Z'') Unreadable (\<lambda>s. None)
      (\<lambda>prompt. Inl Undefined) (js ''good morning'') (js ''French'') None
    = Inl (Error (js ''Cannot read properties of undefined (reading '' @ [39] @ js ''message''
                  @ [39] @ js '')''))"
    by (simp add: translate_def)
next
  have "translate_try exampleEngine (js ''2024-01-01T12:00:00.000Z'') Unreadable (\<lambda>s. None)
      (\<lambda>prompt. Inl (Str (js ''quota exceeded''))) (js ''good morning'') (js ''French'') None
    = Inl (Str (js ''quota exceeded''))"
    by (simp add: translate_try_model_failure rag_miss_good_morning)
  from translate_catch [OF this, of Undefined]
  show "\<exists>r. translate exampleEngine (js ''2024-01-01T12:00:00.000Z'') Unreadable (\<lambda>s. None)
         (\<lambda>prompt. Inl (Str (js ''quota exceeded'')))
         (js ''good morning'') (js ''French'') None = Inr r
       \<and> r (js ''error'') = Some Undefined"
    by (simp add: fso_error)
qed

end
